theory Spec2Isabelle
  imports Main
begin

section \<open>The persistent store\<close>

text \<open>
  The application keeps all of its state in relational tables (created in
  \<^verbatim>\<open>init_db\<close>).  A table is modelled as the list of its rows, a row as a record
  of the columns the operations below read or write, a nullable reference as an
  \<open>option\<close>.  The boolean flags (\<^verbatim>\<open>is_active\<close>, \<^verbatim>\<open>is_completed\<close>) are given a
  value by every \<^verbatim>\<open>INSERT\<close> of the source and are plain booleans.  An
  \<^verbatim>\<open>UPDATE ... WHERE c\<close> rewrites every row that satisfies \<open>c\<close>; a
  \<^verbatim>\<open>SELECT ... WHERE c\<close> filters the rows; \<^verbatim>\<open>fetchone()\<close> is the first row of the
  result, or \<open>None\<close>.  A comparison with a NULL column never holds, so
  \<^verbatim>\<open>col = :x\<close> is \<open>col row = Some x\<close>.  The \<^verbatim>\<open>SERIAL\<close> primary keys are drawn from
  one counter per table, kept in the state.

  A table may be any list of rows.  The key constraints of the schema (primary
  keys, \<^verbatim>\<open>REFERENCES\<close>, \<^verbatim>\<open>UNIQUE\<close>) are checked where the source inserts rows:
  an \<^verbatim>\<open>INSERT\<close> that the store refuses raises, and the operation returns the
  error in place of a result.  The updates of the source change flags and
  timestamps only, with one exception: \<open>mark_task_completed\<close> writes the actor
  into \<^verbatim>\<open>tasks.completed_by_id\<close>, which references the employees table.  That
  check is not part of the model of \<open>mark_task_completed\<close>; what is proved of a
  completing call is proved for an actor that has an employee row.
\<close>

record date =
  year :: int
  month :: int
  day :: int

type_synonym timestamp = int

record company =
  co_id :: int
  co_company_name :: string
  co_is_active :: bool

record branch =
  br_id :: int
  br_company_id :: "int option"
  br_parent_branch_id :: "int option"
  br_branch_name :: string
  br_is_active :: bool

record employee_role =
  ro_id :: int
  ro_role_name :: string
  ro_role_level :: int
  ro_company_id :: "int option"

record employee =
  em_id :: int
  em_branch_id :: "int option"
  em_role_id :: "int option"
  em_username :: string
  em_full_name :: string
  em_is_active :: bool

record task =
  ta_id :: int
  ta_company_id :: "int option"
  ta_branch_id :: "int option"
  ta_employee_id :: "int option"
  ta_task_description :: string
  ta_due_date :: "date option"
  ta_is_completed :: bool
  ta_completed_by_id :: "int option"
  ta_completed_at :: "timestamp option"

record task_assignment =
  as_id :: int
  as_task_id :: "int option"
  as_employee_id :: "int option"
  as_is_completed :: bool
  as_completed_at :: "timestamp option"

record db =
  companies :: "company list"
  branches :: "branch list"
  employee_roles :: "employee_role list"
  employees :: "employee list"
  tasks :: "task list"
  task_assignments :: "task_assignment list"
  employees_id_seq :: int
  tasks_id_seq :: int
  task_assignments_id_seq :: int

text \<open>
  Python truth of an optional identifier (\<^verbatim>\<open>if branch_id\<close>, \<^verbatim>\<open>if task[0]\<close>):
  \<^verbatim>\<open>None\<close> and \<^verbatim>\<open>0\<close> are false, every other integer is true.
\<close>

fun truthy :: "int option \<Rightarrow> bool" where
  "truthy None = False"
| "truthy (Some n) = (n \<noteq> 0)"

text \<open>The errors of the store that reach the caller: a key constraint that an
  \<^verbatim>\<open>INSERT\<close> violates (\<^verbatim>\<open>IntegrityError\<close>) and a string longer than its
  \<^verbatim>\<open>VARCHAR\<close> column (\<^verbatim>\<open>DataError\<close>).\<close>

datatype db_error = IntegrityError | DataError

text \<open>Whether a table has a row with the given primary key.\<close>

definition has_company :: "db \<Rightarrow> int \<Rightarrow> bool" where
  "has_company d company_id = (company_id \<in> set (map co_id (companies d)))"

definition has_branch :: "db \<Rightarrow> int \<Rightarrow> bool" where
  "has_branch d branch_id = (branch_id \<in> set (map br_id (branches d)))"

definition has_role :: "db \<Rightarrow> int \<Rightarrow> bool" where
  "has_role d role_id = (role_id \<in> set (map ro_id (employee_roles d)))"

definition has_employee :: "db \<Rightarrow> int \<Rightarrow> bool" where
  "has_employee d employee_id = (employee_id \<in> set (map em_id (employees d)))"

definition has_task :: "db \<Rightarrow> int \<Rightarrow> bool" where
  "has_task d task_id = (task_id \<in> set (map ta_id (tasks d)))"

text \<open>A \<^verbatim>\<open>REFERENCES\<close> column: NULL refers to nothing, any other value must be
  the key of a row.\<close>

fun fk_ok :: "(int \<Rightarrow> bool) \<Rightarrow> int option \<Rightarrow> bool" where
  "fk_ok has None = True"
| "fk_ok has (Some k) = has k"

text \<open>
  What the store guarantees of the keys that \<open>create_task\<close> and \<open>add_employee\<close>
  meet: employee ids are distinct, every id is below its table's sequence (the
  application never supplies an id of its own), and the task reference of an
  assignment is the id of a task.
\<close>

definition store_keys_ok :: "db \<Rightarrow> bool" where
  "store_keys_ok d =
     (distinct (map em_id (employees d)) \<and>
      (\<forall>t \<in> set (tasks d). ta_id t < tasks_id_seq d) \<and>
      (\<forall>e \<in> set (employees d). em_id e < employees_id_seq d) \<and>
      (\<forall>a \<in> set (task_assignments d). as_id a < task_assignments_id_seq d) \<and>
      (\<forall>a \<in> set (task_assignments d). fk_ok (has_task d) (as_task_id a)))"

section \<open>TaskModel\<close>

subsection \<open>mark_task_completed\<close>

text \<open>\<^verbatim>\<open>SELECT branch_id, employee_id, is_completed FROM tasks WHERE id = :task_id\<close>,
  then \<^verbatim>\<open>fetchone()\<close>.\<close>

definition select_task :: "db \<Rightarrow> int \<Rightarrow> task option" where
  "select_task d task_id = find (\<lambda>t. ta_id t = task_id) (tasks d)"

text \<open>\<^verbatim>\<open>UPDATE task_assignments SET is_completed = TRUE, completed_at = :now
  WHERE task_id = :task_id AND employee_id = :employee_id\<close>\<close>

definition complete_assignment :: "timestamp \<Rightarrow> int \<Rightarrow> int \<Rightarrow> task_assignment \<Rightarrow> task_assignment" where
  "complete_assignment now task_id employee_id a =
     (if as_task_id a = Some task_id \<and> as_employee_id a = Some employee_id
      then a\<lparr>as_is_completed := True, as_completed_at := Some now\<rparr>
      else a)"

definition update_assignment_completed :: "db \<Rightarrow> timestamp \<Rightarrow> int \<Rightarrow> int \<Rightarrow> db" where
  "update_assignment_completed d now task_id employee_id =
     d\<lparr>task_assignments := map (complete_assignment now task_id employee_id) (task_assignments d)\<rparr>"

text \<open>\<^verbatim>\<open>SELECT r.role_level FROM employees e JOIN employee_roles r ON e.role_id = r.id
  WHERE e.id = :employee_id\<close>: the rows of the join, in table order.\<close>

definition select_role_levels :: "db \<Rightarrow> int \<Rightarrow> int list" where
  "select_role_levels d employee_id =
     concat (map (\<lambda>e. map ro_role_level
                         (filter (\<lambda>r. em_role_id e = Some (ro_id r)) (employee_roles d)))
                 (filter (\<lambda>e. em_id e = employee_id) (employees d)))"

definition select_employee_role :: "db \<Rightarrow> int \<Rightarrow> int option" where
  "select_employee_role d employee_id =
     (case select_role_levels d employee_id of [] \<Rightarrow> None | l # _ \<Rightarrow> Some l)"

text \<open>\<^verbatim>\<open>is_manager = employee_role and employee_role[0] <= 2\<close>\<close>

definition is_manager :: "db \<Rightarrow> int \<Rightarrow> bool" where
  "is_manager d employee_id =
     (case select_employee_role d employee_id of None \<Rightarrow> False | Some l \<Rightarrow> l \<le> 2)"

text \<open>\<^verbatim>\<open>UPDATE tasks SET is_completed = TRUE, completed_at = :now,
  completed_by_id = :employee_id WHERE id = :task_id\<close>\<close>

definition complete_task :: "timestamp \<Rightarrow> int \<Rightarrow> int \<Rightarrow> task \<Rightarrow> task" where
  "complete_task now task_id employee_id t =
     (if ta_id t = task_id
      then t\<lparr>ta_is_completed := True, ta_completed_at := Some now,
              ta_completed_by_id := Some employee_id\<rparr>
      else t)"

definition update_task_completed :: "db \<Rightarrow> timestamp \<Rightarrow> int \<Rightarrow> int \<Rightarrow> db" where
  "update_task_completed d now task_id employee_id =
     d\<lparr>tasks := map (complete_task now task_id employee_id) (tasks d)\<rparr>"

text \<open>\<^verbatim>\<open>SELECT COUNT(*) = 0 FROM task_assignments
  WHERE task_id = :task_id AND is_completed = FALSE\<close>\<close>

definition incomplete_assignments :: "db \<Rightarrow> int \<Rightarrow> task_assignment list" where
  "incomplete_assignments d task_id =
     filter (\<lambda>a. as_task_id a = Some task_id \<and> \<not> as_is_completed a) (task_assignments d)"

definition all_complete :: "db \<Rightarrow> int \<Rightarrow> bool" where
  "all_complete d task_id = (length (incomplete_assignments d task_id) = 0)"

text \<open>
  \<^verbatim>\<open>TaskModel.mark_task_completed(conn, task_id, employee_id)\<close>.  The clock
  value \<^verbatim>\<open>datetime.datetime.now()\<close> read at entry is the parameter \<open>now\<close>.  The
  result is the returned boolean and the store after the transaction.
\<close>

definition mark_task_completed :: "db \<Rightarrow> timestamp \<Rightarrow> int \<Rightarrow> int \<Rightarrow> bool \<times> db" where
  "mark_task_completed d now task_id employee_id =
     (case select_task d task_id of
        None \<Rightarrow> (False, d)
      | Some t \<Rightarrow>
          if ta_is_completed t then (True, d)
          else if truthy (ta_branch_id t) then
            (let d1 = update_assignment_completed d now task_id employee_id in
             if is_manager d1 employee_id
             then (True, update_task_completed d1 now task_id employee_id)
             else if all_complete d1 task_id
             then (True, update_task_completed d1 now task_id employee_id)
             else (False, d1))
          else if ta_employee_id t = Some employee_id
          then (True, update_task_completed d now task_id employee_id)
          else (False, d))"

subsection \<open>create_task\<close>

text \<open>\<^verbatim>\<open>INSERT INTO tasks (company_id, branch_id, employee_id, task_description,
  due_date, is_completed) VALUES (..., FALSE) RETURNING id\<close>: the new row takes
  the next value of the table's sequence; the columns not listed are NULL.  The
  store refuses the row when the id is taken or when the company, the branch or
  the employee it refers to has no row.\<close>

definition insert_task ::
  "db \<Rightarrow> int \<Rightarrow> int option \<Rightarrow> int option \<Rightarrow> string \<Rightarrow> date option \<Rightarrow> db_error + int \<times> db" where
  "insert_task d company_id branch_id employee_id task_description due_date =
     (let task_id = tasks_id_seq d in
      if has_task d task_id \<or> \<not> has_company d company_id \<or>
         \<not> fk_ok (has_branch d) branch_id \<or> \<not> fk_ok (has_employee d) employee_id
      then Inl IntegrityError
      else Inr (task_id,
        d\<lparr>tasks := tasks d @
             [\<lparr>ta_id = task_id, ta_company_id = Some company_id, ta_branch_id = branch_id,
               ta_employee_id = employee_id, ta_task_description = task_description,
               ta_due_date = due_date, ta_is_completed = False,
               ta_completed_by_id = None, ta_completed_at = None\<rparr>],
           tasks_id_seq := task_id + 1\<rparr>))"

text \<open>\<^verbatim>\<open>SELECT id FROM employees WHERE branch_id = :branch_id AND is_active = TRUE\<close>\<close>

definition select_active_branch_employees :: "db \<Rightarrow> int option \<Rightarrow> int list" where
  "select_active_branch_employees d branch_id =
     map em_id (filter (\<lambda>e. branch_id \<noteq> None \<and> em_branch_id e = branch_id \<and> em_is_active e)
                       (employees d))"

text \<open>\<^verbatim>\<open>INSERT INTO task_assignments (task_id, employee_id, is_completed)
  VALUES (:task_id, :employee_id, FALSE)\<close>.  The store refuses the row when the
  id is taken, when the task or the employee has no row, or when the pair of
  task and employee is already assigned (\<^verbatim>\<open>UNIQUE(task_id, employee_id)\<close>).\<close>

definition insert_assignment :: "db \<Rightarrow> int \<Rightarrow> int \<Rightarrow> db_error + db" where
  "insert_assignment d task_id employee_id =
     (if task_assignments_id_seq d \<in> set (map as_id (task_assignments d)) \<or>
         \<not> has_task d task_id \<or> \<not> has_employee d employee_id \<or>
         (Some task_id, Some employee_id) \<in>
            set (map (\<lambda>a. (as_task_id a, as_employee_id a)) (task_assignments d))
      then Inl IntegrityError
      else Inr (d\<lparr>task_assignments := task_assignments d @
                    [\<lparr>as_id = task_assignments_id_seq d, as_task_id = Some task_id,
                      as_employee_id = Some employee_id, as_is_completed = False,
                      as_completed_at = None\<rparr>],
                  task_assignments_id_seq := task_assignments_id_seq d + 1\<rparr>))"

text \<open>The loop \<^verbatim>\<open>for emp in employees: conn.execute(INSERT ...)\<close>; the first
  refused row ends it.\<close>

fun insert_assignments :: "db \<Rightarrow> int \<Rightarrow> int list \<Rightarrow> db_error + db" where
  "insert_assignments d task_id [] = Inr d"
| "insert_assignments d task_id (emp # emps) =
     (case insert_assignment d task_id emp of
        Inl e \<Rightarrow> Inl e
      | Inr d1 \<Rightarrow> insert_assignments d1 task_id emps)"

text \<open>\<^verbatim>\<open>TaskModel.create_task(conn, company_id, task_description, due_date,
  branch_id=None, employee_id=None)\<close>: the returned task id and the store after
  the transaction, or the error that ends the transaction (which is then rolled
  back: no row of it stays).\<close>

definition create_task ::
  "db \<Rightarrow> int \<Rightarrow> string \<Rightarrow> date option \<Rightarrow> int option \<Rightarrow> int option \<Rightarrow> db_error + int \<times> db" where
  "create_task d company_id task_description due_date branch_id employee_id =
     (case insert_task d company_id branch_id employee_id task_description due_date of
        Inl e \<Rightarrow> Inl e
      | Inr (task_id, d1) \<Rightarrow>
          if truthy branch_id \<and> \<not> truthy employee_id
          then (case insert_assignments d1 task_id (select_active_branch_employees d1 branch_id) of
                  Inl e \<Rightarrow> Inl e
                | Inr d2 \<Rightarrow> Inr (task_id, d2))
          else Inr (task_id, d1))"

subsection \<open>reopen_task\<close>

text \<open>\<^verbatim>\<open>UPDATE tasks SET is_completed = FALSE, completed_at = NULL,
  completed_by_id = NULL WHERE id = :task_id\<close>\<close>

definition reopen_task_row :: "int \<Rightarrow> task \<Rightarrow> task" where
  "reopen_task_row task_id t =
     (if ta_id t = task_id
      then t\<lparr>ta_is_completed := False, ta_completed_at := None, ta_completed_by_id := None\<rparr>
      else t)"

text \<open>\<^verbatim>\<open>UPDATE task_assignments SET is_completed = FALSE, completed_at = NULL
  WHERE task_id = :task_id\<close>\<close>

definition reopen_assignment_row :: "int \<Rightarrow> task_assignment \<Rightarrow> task_assignment" where
  "reopen_assignment_row task_id a =
     (if as_task_id a = Some task_id
      then a\<lparr>as_is_completed := False, as_completed_at := None\<rparr>
      else a)"

text \<open>\<^verbatim>\<open>TaskModel.reopen_task(conn, task_id)\<close>: two updates in one transaction;
  the function has no actor parameter and returns nothing.\<close>

definition reopen_task :: "db \<Rightarrow> int \<Rightarrow> db" where
  "reopen_task d task_id =
     d\<lparr>tasks := map (reopen_task_row task_id) (tasks d),
       task_assignments := map (reopen_assignment_row task_id) (task_assignments d)\<rparr>"

subsection \<open>A sequence of completions\<close>

text \<open>Successive calls of \<open>mark_task_completed\<close> on one task, each with its own
  clock value and actor; the returned booleans are collected in call order.\<close>

fun mark_task_completed_calls :: "db \<Rightarrow> int \<Rightarrow> (timestamp \<times> int) list \<Rightarrow> bool list \<times> db" where
  "mark_task_completed_calls d task_id [] = ([], d)"
| "mark_task_completed_calls d task_id ((now, employee_id) # calls) =
     (let (r, d1) = mark_task_completed d now task_id employee_id;
          (rs, d2) = mark_task_completed_calls d1 task_id calls
      in (r # rs, d2))"

section \<open>EmployeeModel, CompanyModel, BranchModel\<close>

text \<open>\<^verbatim>\<open>EmployeeModel.add_employee(conn, branch_id, role_id, username, password,
  full_name, profile_pic_url)\<close>: one \<^verbatim>\<open>INSERT INTO employees (..., is_active)
  VALUES (..., TRUE)\<close>.  The store refuses a string longer than its column
  (\<^verbatim>\<open>VARCHAR(50)\<close>, \<^verbatim>\<open>VARCHAR(255)\<close>, \<^verbatim>\<open>VARCHAR(100)\<close>), and a row whose id is
  taken, whose branch or role has no row, or whose username an employee already
  has.  The password and picture columns are read by no operation modelled here
  and are not kept in the row.\<close>

definition add_employee ::
  "db \<Rightarrow> int \<Rightarrow> int \<Rightarrow> string \<Rightarrow> string \<Rightarrow> string \<Rightarrow> string \<Rightarrow> db_error + db" where
  "add_employee d branch_id role_id username password full_name profile_pic_url =
     (if 50 < length username \<or> 255 < length password \<or> 100 < length full_name
      then Inl DataError
      else if has_employee d (employees_id_seq d) \<or> \<not> has_branch d branch_id \<or>
              \<not> has_role d role_id \<or> username \<in> set (map em_username (employees d))
      then Inl IntegrityError
      else Inr (d\<lparr>employees := employees d @
                    [\<lparr>em_id = employees_id_seq d, em_branch_id = Some branch_id,
                      em_role_id = Some role_id, em_username = username,
                      em_full_name = full_name, em_is_active = True\<rparr>],
                  employees_id_seq := employees_id_seq d + 1\<rparr>))"

text \<open>\<^verbatim>\<open>SELECT id FROM branches WHERE company_id = :company_id\<close>\<close>

definition company_branch_ids :: "db \<Rightarrow> int \<Rightarrow> int list" where
  "company_branch_ids d company_id =
     map br_id (filter (\<lambda>b. br_company_id b = Some company_id) (branches d))"

text \<open>\<^verbatim>\<open>branch_id IN (SELECT id FROM branches WHERE company_id = :company_id)\<close>\<close>

definition in_company :: "db \<Rightarrow> int \<Rightarrow> employee \<Rightarrow> bool" where
  "in_company d company_id e =
     (case em_branch_id e of None \<Rightarrow> False
      | Some b \<Rightarrow> b \<in> set (company_branch_ids d company_id))"

text \<open>\<^verbatim>\<open>CompanyModel.update_company_status(conn, company_id, is_active)\<close>: three
  updates, of the company row, of the company's branches and of the employees
  of those branches, all with the same \<open>is_active\<close>.\<close>

definition update_company_status :: "db \<Rightarrow> int \<Rightarrow> bool \<Rightarrow> db" where
  "update_company_status d company_id is_active =
     (let d1 = d\<lparr>companies :=
                   map (\<lambda>c. if co_id c = company_id then c\<lparr>co_is_active := is_active\<rparr> else c)
                       (companies d)\<rparr>;
          d2 = d1\<lparr>branches :=
                    map (\<lambda>b. if br_company_id b = Some company_id
                             then b\<lparr>br_is_active := is_active\<rparr> else b)
                        (branches d1)\<rparr>
      in d2\<lparr>employees :=
               map (\<lambda>e. if in_company d2 company_id e then e\<lparr>em_is_active := is_active\<rparr> else e)
                   (employees d2)\<rparr>)"

text \<open>\<^verbatim>\<open>BranchModel.update_branch_status(conn, branch_id, is_active)\<close>: the branch
  row, then the employees of the branch, both with the same \<open>is_active\<close>.\<close>

definition update_branch_status :: "db \<Rightarrow> int \<Rightarrow> bool \<Rightarrow> db" where
  "update_branch_status d branch_id is_active =
     d\<lparr>branches :=
         map (\<lambda>b. if br_id b = branch_id then b\<lparr>br_is_active := is_active\<rparr> else b)
             (branches d),
       employees :=
         map (\<lambda>e. if em_branch_id e = Some branch_id then e\<lparr>em_is_active := is_active\<rparr> else e)
             (employees d)\<rparr>"

section \<open>Dates and the date-range presets\<close>

text \<open>
  The presets work on \<^verbatim>\<open>datetime.date\<close> values.  A date is its three fields;
  the library functions used by the source are modelled with the library's own
  arithmetic: the proleptic Gregorian ordinal (day 1 is 0001-01-01),
  \<^verbatim>\<open>weekday()\<close> as \<open>(ordinal + 6) mod 7\<close> (Monday is 0), the constructor and
  \<^verbatim>\<open>replace\<close> raising \<^verbatim>\<open>ValueError\<close> on a date that does not exist, and the
  subtraction of a \<^verbatim>\<open>timedelta\<close> of whole days raising \<^verbatim>\<open>OverflowError\<close> below
  0001-01-01.
\<close>

datatype py_error = ValueError | OverflowError | UnboundLocalError

definition is_leap :: "int \<Rightarrow> bool" where
  "is_leap y = (y mod 4 = 0 \<and> (y mod 100 \<noteq> 0 \<or> y mod 400 = 0))"

definition days_in_month :: "int \<Rightarrow> int \<Rightarrow> int" where
  "days_in_month y m =
     (if m = 2 then (if is_leap y then 29 else 28)
      else if m = 4 \<or> m = 6 \<or> m = 9 \<or> m = 11 then 30
      else 31)"

definition days_before_year :: "int \<Rightarrow> int" where
  "days_before_year y = (y - 1) * 365 + (y - 1) div 4 - (y - 1) div 100 + (y - 1) div 400"

definition days_before_month :: "int \<Rightarrow> int \<Rightarrow> int" where
  "days_before_month y m =
     (if m = 1 then 0 else if m = 2 then 31 else if m = 3 then 59 else if m = 4 then 90
      else if m = 5 then 120 else if m = 6 then 151 else if m = 7 then 181
      else if m = 8 then 212 else if m = 9 then 243 else if m = 10 then 273
      else if m = 11 then 304 else 334)
     + (if m > 2 \<and> is_leap y then 1 else 0)"

definition toordinal :: "date \<Rightarrow> int" where
  "toordinal dt = days_before_year (year dt) + days_before_month (year dt) (month dt) + day dt"

definition weekday :: "date \<Rightarrow> int" where
  "weekday dt = (toordinal dt + 6) mod 7"

definition valid_date :: "date \<Rightarrow> bool" where
  "valid_date dt =
     (1 \<le> year dt \<and> year dt \<le> 9999 \<and> 1 \<le> month dt \<and> month dt \<le> 12 \<and>
      1 \<le> day dt \<and> day dt \<le> days_in_month (year dt) (month dt))"

text \<open>\<^verbatim>\<open>datetime.date(y, m, d)\<close>\<close>

definition mk_date :: "int \<Rightarrow> int \<Rightarrow> int \<Rightarrow> py_error + date" where
  "mk_date y m d =
     (let dt = \<lparr>year = y, month = m, day = d\<rparr>
      in if valid_date dt then Inr dt else Inl ValueError)"

text \<open>\<^verbatim>\<open>dt.replace(day=d)\<close> and \<^verbatim>\<open>dt.replace(month=m, day=d)\<close>\<close>

definition replace_day :: "date \<Rightarrow> int \<Rightarrow> py_error + date" where
  "replace_day dt d = mk_date (year dt) (month dt) d"

definition replace_month_day :: "date \<Rightarrow> int \<Rightarrow> int \<Rightarrow> py_error + date" where
  "replace_month_day dt m d = mk_date (year dt) m d"

text \<open>\<^verbatim>\<open>dt - timedelta(days=1)\<close>: the calendar day before \<open>dt\<close>.\<close>

definition prev_day :: "date \<Rightarrow> py_error + date" where
  "prev_day dt =
     (if day dt > 1 then Inr (dt\<lparr>day := day dt - 1\<rparr>)
      else if month dt > 1
        then Inr \<lparr>year = year dt, month = month dt - 1,
                 day = days_in_month (year dt) (month dt - 1)\<rparr>
      else if year dt > 1 then Inr \<lparr>year = year dt - 1, month = 12, day = 31\<rparr>
      else Inl OverflowError)"

text \<open>\<^verbatim>\<open>dt - timedelta(days=n)\<close> for \<open>n \<ge> 0\<close>: \<open>n\<close> steps back.\<close>

fun sub_days :: "date \<Rightarrow> nat \<Rightarrow> py_error + date" where
  "sub_days dt 0 = Inr dt"
| "sub_days dt (Suc n) = (case prev_day dt of Inl e \<Rightarrow> Inl e | Inr dt' \<Rightarrow> sub_days dt' n)"

text \<open>The \<^verbatim>\<open>"Last Month"\<close> branch shared by the report views.\<close>

definition last_month_range :: "date \<Rightarrow> py_error + date \<times> date" where
  "last_month_range today =
     (let last_month = (if month today > 1 then month today - 1 else 12);
          last_month_year = (if month today > 1 then year today else year today - 1)
      in case mk_date last_month_year last_month 1 of
           Inl e \<Rightarrow> Inl e
         | Inr start_date \<Rightarrow>
             if last_month = 12
             then (case mk_date last_month_year last_month 31 of
                     Inl e \<Rightarrow> Inl e
                   | Inr end_date \<Rightarrow> Inr (start_date, end_date))
             else (case mk_date last_month_year (last_month + 1) 1 of
                     Inl e \<Rightarrow> Inl e
                   | Inr d1 \<Rightarrow>
                       (case sub_days d1 1 of
                          Inl e \<Rightarrow> Inl e
                        | Inr end_date \<Rightarrow> Inr (start_date, end_date))))"

text \<open>The \<^verbatim>\<open>"Last 3 Months"\<close> branch:
  \<^verbatim>\<open>start_date = (today.replace(day=1) - timedelta(days=1)).replace(day=1)\<close>, then
  \<^verbatim>\<open>start_date = (start_date - timedelta(days=1)).replace(day=1)\<close>.\<close>

definition last_3_months_start :: "date \<Rightarrow> py_error + date" where
  "last_3_months_start today =
     (case replace_day today 1 of
        Inl e \<Rightarrow> Inl e
      | Inr d1 \<Rightarrow>
          (case sub_days d1 1 of
             Inl e \<Rightarrow> Inl e
           | Inr d2 \<Rightarrow>
               (case replace_day d2 1 of
                  Inl e \<Rightarrow> Inl e
                | Inr start_date \<Rightarrow>
                    (case sub_days start_date 1 of
                       Inl e \<Rightarrow> Inl e
                     | Inr d3 \<Rightarrow> replace_day d3 1))))"

text \<open>
  The date range calculation of \<^verbatim>\<open>view_branch_employee_reports\<close>.  \<open>today\<close> is
  \<^verbatim>\<open>datetime.date.today()\<close>; \<open>custom_start\<close> and \<open>custom_end\<close> are the two dates
  the user picks under \<^verbatim>\<open>"Custom Range"\<close> (the default offered for the start is
  \<^verbatim>\<open>today - timedelta(days=30)\<close>, which is computed first).  A filter outside the
  chain leaves \<^verbatim>\<open>start_date\<close> unbound.
\<close>

definition view_date_range :: "date \<Rightarrow> string \<Rightarrow> date \<Rightarrow> date \<Rightarrow> py_error + date \<times> date" where
  "view_date_range today date_filter custom_start custom_end =
     (if date_filter = ''Today'' then Inr (today, today)
      else if date_filter = ''This Week'' then
        (case sub_days today (nat (weekday today)) of
           Inl e \<Rightarrow> Inl e | Inr start_date \<Rightarrow> Inr (start_date, today))
      else if date_filter = ''This Month'' then
        (case replace_day today 1 of
           Inl e \<Rightarrow> Inl e | Inr start_date \<Rightarrow> Inr (start_date, today))
      else if date_filter = ''Last Month'' then last_month_range today
      else if date_filter = ''Last 3 Months'' then
        (case last_3_months_start today of
           Inl e \<Rightarrow> Inl e | Inr start_date \<Rightarrow> Inr (start_date, today))
      else if date_filter = ''Custom Range'' then
        (case sub_days today 30 of
           Inl e \<Rightarrow> Inl e | Inr default_start \<Rightarrow> Inr (custom_start, custom_end))
      else Inl UnboundLocalError)"

text \<open>\<^verbatim>\<open>get_date_range_from_filter(date_filter)\<close>, with \<open>today\<close> as above.\<close>

definition get_date_range_from_filter :: "date \<Rightarrow> string \<Rightarrow> py_error + date \<times> date" where
  "get_date_range_from_filter today date_filter =
     (if date_filter = ''Today'' then Inr (today, today)
      else if date_filter = ''This Week'' then
        (case sub_days today (nat (weekday today)) of
           Inl e \<Rightarrow> Inl e | Inr start_date \<Rightarrow> Inr (start_date, today))
      else if date_filter = ''This Month'' then
        (case replace_day today 1 of
           Inl e \<Rightarrow> Inl e | Inr start_date \<Rightarrow> Inr (start_date, today))
      else if date_filter = ''This Year'' then
        (case replace_month_day today 1 1 of
           Inl e \<Rightarrow> Inl e | Inr start_date \<Rightarrow> Inr (start_date, today))
      else (case mk_date 2000 1 1 of
              Inl e \<Rightarrow> Inl e | Inr start_date \<Rightarrow> Inr (start_date, today)))"

section \<open>An example store\<close>

text \<open>
  Two companies.  Company 1 has the branches 1 (a manager and two general
  employees) and 2 (one employee, inactive); company 2 has branch 3 (a manager
  and a general employee).  Task 1 is an open task of branch 1 with one
  assignment per employee of the branch, task 2 an open task given directly to
  employee 2, task 3 a branch task already completed by the manager.
\<close>

definition example_task1 :: task where
  "example_task1 =
     \<lparr>ta_id = 1, ta_company_id = Some 1, ta_branch_id = Some 1, ta_employee_id = None,
      ta_task_description = ''Stock count'', ta_due_date = None, ta_is_completed = False,
      ta_completed_by_id = None, ta_completed_at = None\<rparr>"

definition example_task2 :: task where
  "example_task2 =
     \<lparr>ta_id = 2, ta_company_id = Some 1, ta_branch_id = None, ta_employee_id = Some 2,
      ta_task_description = ''File report'', ta_due_date = None, ta_is_completed = False,
      ta_completed_by_id = None, ta_completed_at = None\<rparr>"

definition example_task3 :: task where
  "example_task3 =
     \<lparr>ta_id = 3, ta_company_id = Some 1, ta_branch_id = Some 1, ta_employee_id = None,
      ta_task_description = ''Lock up'', ta_due_date = None, ta_is_completed = True,
      ta_completed_by_id = Some 1, ta_completed_at = Some 50\<rparr>"

definition example_assignments :: "task_assignment list" where
  "example_assignments =
     [\<lparr>as_id = 1, as_task_id = Some 1, as_employee_id = Some 1, as_is_completed = False,
       as_completed_at = None\<rparr>,
      \<lparr>as_id = 2, as_task_id = Some 1, as_employee_id = Some 2, as_is_completed = False,
       as_completed_at = None\<rparr>,
      \<lparr>as_id = 3, as_task_id = Some 1, as_employee_id = Some 3, as_is_completed = False,
       as_completed_at = None\<rparr>,
      \<lparr>as_id = 4, as_task_id = Some 3, as_employee_id = Some 1, as_is_completed = True,
       as_completed_at = Some 50\<rparr>,
      \<lparr>as_id = 5, as_task_id = Some 3, as_employee_id = Some 2, as_is_completed = False,
       as_completed_at = None\<rparr>,
      \<lparr>as_id = 6, as_task_id = Some 3, as_employee_id = Some 3, as_is_completed = False,
       as_completed_at = None\<rparr>]"

definition example_employees :: "employee list" where
  "example_employees =
     [\<lparr>em_id = 1, em_branch_id = Some 1, em_role_id = Some 1, em_username = ''mona'',
       em_full_name = ''Mona'', em_is_active = True\<rparr>,
      \<lparr>em_id = 2, em_branch_id = Some 1, em_role_id = Some 3, em_username = ''gus'',
       em_full_name = ''Gus'', em_is_active = True\<rparr>,
      \<lparr>em_id = 3, em_branch_id = Some 1, em_role_id = Some 3, em_username = ''gil'',
       em_full_name = ''Gil'', em_is_active = True\<rparr>,
      \<lparr>em_id = 4, em_branch_id = Some 3, em_role_id = Some 4, em_username = ''olga'',
       em_full_name = ''Olga'', em_is_active = True\<rparr>,
      \<lparr>em_id = 5, em_branch_id = Some 3, em_role_id = Some 6, em_username = ''pete'',
       em_full_name = ''Pete'', em_is_active = True\<rparr>,
      \<lparr>em_id = 6, em_branch_id = Some 2, em_role_id = Some 3, em_username = ''ivan'',
       em_full_name = ''Ivan'', em_is_active = False\<rparr>]"

definition example_roles :: "employee_role list" where
  "example_roles =
     [\<lparr>ro_id = 1, ro_role_name = ''Manager'', ro_role_level = 1, ro_company_id = Some 1\<rparr>,
      \<lparr>ro_id = 2, ro_role_name = ''Asst. Manager'', ro_role_level = 2, ro_company_id = Some 1\<rparr>,
      \<lparr>ro_id = 3, ro_role_name = ''General Employee'', ro_role_level = 3, ro_company_id = Some 1\<rparr>,
      \<lparr>ro_id = 4, ro_role_name = ''Manager'', ro_role_level = 1, ro_company_id = Some 2\<rparr>,
      \<lparr>ro_id = 5, ro_role_name = ''Asst. Manager'', ro_role_level = 2, ro_company_id = Some 2\<rparr>,
      \<lparr>ro_id = 6, ro_role_name = ''General Employee'', ro_role_level = 3, ro_company_id = Some 2\<rparr>]"

definition example_branches :: "branch list" where
  "example_branches =
     [\<lparr>br_id = 1, br_company_id = Some 1, br_parent_branch_id = None,
       br_branch_name = ''Head Office'', br_is_active = True\<rparr>,
      \<lparr>br_id = 2, br_company_id = Some 1, br_parent_branch_id = Some 1,
       br_branch_name = ''Depot'', br_is_active = True\<rparr>,
      \<lparr>br_id = 3, br_company_id = Some 2, br_parent_branch_id = None,
       br_branch_name = ''Main'', br_is_active = True\<rparr>]"

definition example_companies :: "company list" where
  "example_companies =
     [\<lparr>co_id = 1, co_company_name = ''Acme'', co_is_active = True\<rparr>,
      \<lparr>co_id = 2, co_company_name = ''Borealis'', co_is_active = True\<rparr>]"

definition example_db :: db where
  "example_db =
     \<lparr>companies = example_companies, branches = example_branches,
      employee_roles = example_roles, employees = example_employees,
      tasks = [example_task1, example_task2, example_task3],
      task_assignments = example_assignments,
      employees_id_seq = 7, tasks_id_seq = 4, task_assignments_id_seq = 7\<rparr>"

text \<open>Whether the task row found for \<open>task_id\<close> has its completion flag set.\<close>

definition task_is_complete :: "db \<Rightarrow> int \<Rightarrow> bool" where
  "task_is_complete d task_id =
     (case select_task d task_id of None \<Rightarrow> False | Some t \<Rightarrow> ta_is_completed t)"

text \<open>The employees whose assignment for the task is still incomplete (a NULL
  employee reference is \<open>None\<close>).\<close>

definition pending_assignees :: "db \<Rightarrow> int \<Rightarrow> int option set" where
  "pending_assignees d task_id = set (map as_employee_id (incomplete_assignments d task_id))"

text \<open>The example store after a further hire in branch 3 and an open task 4 for
  that branch, assigned to its two general employees.\<close>

definition example_task4 :: task where
  "example_task4 =
     \<lparr>ta_id = 4, ta_company_id = Some 2, ta_branch_id = Some 3, ta_employee_id = None,
      ta_task_description = ''Inventory'', ta_due_date = None, ta_is_completed = False,
      ta_completed_by_id = None, ta_completed_at = None\<rparr>"

definition example_db_general :: db where
  "example_db_general =
     example_db\<lparr>
       employees := example_employees @
         [\<lparr>em_id = 7, em_branch_id = Some 3, em_role_id = Some 6, em_username = ''quin'',
           em_full_name = ''Quin'', em_is_active = True\<rparr>],
       tasks := [example_task1, example_task2, example_task3, example_task4],
       task_assignments := example_assignments @
         [\<lparr>as_id = 7, as_task_id = Some 4, as_employee_id = Some 5, as_is_completed = False,
           as_completed_at = None\<rparr>,
          \<lparr>as_id = 8, as_task_id = Some 4, as_employee_id = Some 7, as_is_completed = False,
           as_completed_at = None\<rparr>],
       employees_id_seq := 8, tasks_id_seq := 5, task_assignments_id_seq := 9\<rparr>"

text \<open>The example store after a task is created for branch 2, which has no
  active employee.\<close>

definition example_db_audit :: db where
  "example_db_audit =
     example_db\<lparr>tasks := [example_task1, example_task2, example_task3,
        \<lparr>ta_id = 4, ta_company_id = Some 1, ta_branch_id = Some 2, ta_employee_id = None,
         ta_task_description = ''Audit'', ta_due_date = None, ta_is_completed = False,
         ta_completed_by_id = None, ta_completed_at = None\<rparr>],
       tasks_id_seq := 5\<rparr>"

text \<open>Wednesday, 13 March 2024.\<close>

definition example_wednesday :: date where
  "example_wednesday = \<lparr>year = 2024, month = 3, day = 13\<rparr>"

section \<open>Properties of the task engine\<close>

subsection \<open>Rows and tables under the updates\<close>

lemma find_map_preserve:
  assumes "\<And>x. P (f x) = P x"
  shows "find P (map f xs) = map_option f (find P xs)"
  using assms by (induction xs) auto

lemma complete_task_row:
  "ta_id (complete_task now task_id employee_id t) = ta_id t"
  "ta_id t = task_id \<Longrightarrow> ta_is_completed (complete_task now task_id employee_id t)"
  "ta_id t = task_id \<Longrightarrow>
     ta_completed_by_id (complete_task now task_id employee_id t) = Some employee_id"
  "ta_id t = task_id \<Longrightarrow> ta_completed_at (complete_task now task_id employee_id t) = Some now"
  "ta_id t \<noteq> task_id \<Longrightarrow> complete_task now task_id employee_id t = t"
  by (simp_all add: complete_task_def)

lemma complete_assignment_row:
  "as_task_id (complete_assignment now task_id employee_id a) = as_task_id a"
  "as_employee_id (complete_assignment now task_id employee_id a) = as_employee_id a"
  "as_id (complete_assignment now task_id employee_id a) = as_id a"
  "as_task_id a = Some task_id \<Longrightarrow> as_employee_id a = Some employee_id \<Longrightarrow>
     as_is_completed (complete_assignment now task_id employee_id a)"
  "as_task_id a = Some task_id \<Longrightarrow> as_employee_id a = Some employee_id \<Longrightarrow>
     as_completed_at (complete_assignment now task_id employee_id a) = Some now"
  by (simp_all add: complete_assignment_def)

lemma complete_assignment_other:
  "as_task_id a \<noteq> Some task_id \<Longrightarrow> complete_assignment now task_id employee_id a = a"
  "as_employee_id a \<noteq> Some employee_id \<Longrightarrow> complete_assignment now task_id employee_id a = a"
  by (simp_all add: complete_assignment_def)

lemma tasks_update_task_completed:
  "tasks (update_task_completed d now task_id employee_id) =
     map (complete_task now task_id employee_id) (tasks d)"
  by (simp add: update_task_completed_def)

lemma task_assignments_update_assignment_completed:
  "task_assignments (update_assignment_completed d now task_id employee_id) =
     map (complete_assignment now task_id employee_id) (task_assignments d)"
  by (simp add: update_assignment_completed_def)

lemma tasks_update_assignment_completed [simp]:
  "tasks (update_assignment_completed d now task_id employee_id) = tasks d"
  by (simp add: update_assignment_completed_def)

lemma task_assignments_update_task_completed [simp]:
  "task_assignments (update_task_completed d now task_id employee_id) = task_assignments d"
  by (simp add: update_task_completed_def)

lemma select_task_update_task_completed:
  "select_task (update_task_completed d now task_id employee_id) tid =
     map_option (complete_task now task_id employee_id) (select_task d tid)"
  unfolding select_task_def tasks_update_task_completed
  by (rule find_map_preserve) (simp add: complete_task_row)

lemma select_task_update_assignment_completed [simp]:
  "select_task (update_assignment_completed d now task_id employee_id) tid = select_task d tid"
  by (simp add: select_task_def)

lemma is_manager_update_assignment_completed [simp]:
  "is_manager (update_assignment_completed d now task_id employee_id) e = is_manager d e"
  by (simp add: is_manager_def select_employee_role_def select_role_levels_def
      update_assignment_completed_def)

lemma select_task_id: "select_task d task_id = Some t \<Longrightarrow> ta_id t = task_id"
  by (auto simp: select_task_def find_Some_iff)

lemma complete_task_selected:
  "ta_id t = task_id \<Longrightarrow>
   complete_task now task_id employee_id t =
     t\<lparr>ta_is_completed := True, ta_completed_at := Some now,
       ta_completed_by_id := Some employee_id\<rparr>"
  by (simp add: complete_task_def)

lemma filter_others_complete_assignment:
  "filter (\<lambda>a. \<not> (as_task_id a = Some task_id \<and> as_employee_id a = Some employee_id))
          (map (complete_assignment now task_id employee_id) xs) =
   filter (\<lambda>a. \<not> (as_task_id a = Some task_id \<and> as_employee_id a = Some employee_id)) xs"
proof (induction xs)
  case Nil
  show ?case by simp
next
  case (Cons a xs)
  show ?case
  proof (cases "as_task_id a = Some task_id \<and> as_employee_id a = Some employee_id")
    case True
    then show ?thesis using Cons.IH by (simp add: complete_assignment_row)
  next
    case False
    then have "complete_assignment now task_id employee_id a = a"
      by (auto simp: complete_assignment_other)
    then show ?thesis using Cons.IH False by simp
  qed
qed

lemma complete_task_rows:
  "\<forall>t' \<in> set (map (complete_task now task_id employee_id) ts). ta_id t' = task_id \<longrightarrow>
     ta_is_completed t' \<and> ta_completed_by_id t' = Some employee_id \<and>
     ta_completed_at t' = Some now"
  by (simp add: complete_task_row)

lemma complete_assignment_rows:
  "\<forall>a \<in> set (map (complete_assignment now task_id employee_id) xs).
     as_task_id a = Some task_id \<and> as_employee_id a = Some employee_id \<longrightarrow>
     as_is_completed a \<and> as_completed_at a = Some now"
  by (simp add: complete_assignment_row)

subsection \<open>The branches of mark_task_completed\<close>

lemma mark_task_completed_manager:
  assumes "select_task d task_id = Some t" and "\<not> ta_is_completed t"
    and "truthy (ta_branch_id t)" and "is_manager d employee_id"
  shows "mark_task_completed d now task_id employee_id =
           (True, update_task_completed (update_assignment_completed d now task_id employee_id)
                    now task_id employee_id)"
  using assms by (simp add: mark_task_completed_def Let_def)

subsection \<open>The example store\<close>

lemma example_select_task:
  "select_task example_db 1 = Some example_task1"
  "select_task example_db 2 = Some example_task2"
  "select_task example_db 3 = Some example_task3"
  by (simp_all add: select_task_def example_db_def example_task1_def example_task2_def
      example_task3_def)

lemma example_roles_of:
  "select_employee_role example_db 1 = Some 1"
  "select_employee_role example_db 2 = Some 3"
  "select_employee_role example_db 3 = Some 3"
  "select_employee_role example_db 4 = Some 1"
  "select_employee_role example_db 5 = Some 3"
  by (simp_all add: select_employee_role_def select_role_levels_def example_db_def
      example_employees_def example_roles_def)

subsection \<open>Manager override\<close>

text \<open>
  Claim C1.  Let the task row found for \<open>task_id\<close> be open and branch-targeted,
  and let the actor's role level be at most 2 (Manager or Asst. Manager).  Then
  one call of \<open>mark_task_completed\<close> returns true; the task row is now complete,
  with completed-by the actor and the timestamp of the call, as is every task
  row with that id; every assignment row of the task keyed to the actor is
  complete with that timestamp; and every other assignment row is left as it
  was, so however many of them are incomplete stay incomplete.
\<close>

theorem mark_task_completed_manager_override:
  assumes "select_task d task_id = Some t" and "\<not> ta_is_completed t"
    and "truthy (ta_branch_id t)"
    and "select_employee_role d employee_id = Some l" and "l \<le> 2"
  shows "\<exists>d'. mark_task_completed d now task_id employee_id = (True, d') \<and>
           select_task d' task_id =
             Some (t\<lparr>ta_is_completed := True, ta_completed_at := Some now,
                     ta_completed_by_id := Some employee_id\<rparr>) \<and>
           (\<forall>t' \<in> set (tasks d'). ta_id t' = task_id \<longrightarrow>
              ta_is_completed t' \<and> ta_completed_by_id t' = Some employee_id \<and>
              ta_completed_at t' = Some now) \<and>
           (\<forall>a \<in> set (task_assignments d').
              as_task_id a = Some task_id \<and> as_employee_id a = Some employee_id \<longrightarrow>
              as_is_completed a \<and> as_completed_at a = Some now) \<and>
           filter (\<lambda>a. \<not> (as_task_id a = Some task_id \<and> as_employee_id a = Some employee_id))
                  (task_assignments d') =
           filter (\<lambda>a. \<not> (as_task_id a = Some task_id \<and> as_employee_id a = Some employee_id))
                  (task_assignments d)"
proof -
  have m: "is_manager d employee_id"
    using assms(4,5) by (simp add: is_manager_def)
  let ?d' = "update_task_completed (update_assignment_completed d now task_id employee_id)
                    now task_id employee_id"
  have r: "mark_task_completed d now task_id employee_id = (True, ?d')"
    by (rule mark_task_completed_manager [OF assms(1-3) m])
  have s: "select_task ?d' task_id =
             Some (t\<lparr>ta_is_completed := True, ta_completed_at := Some now,
                     ta_completed_by_id := Some employee_id\<rparr>)"
    using assms(1) select_task_id [OF assms(1)]
    by (simp add: select_task_update_task_completed complete_task_selected)
  have t: "\<forall>t' \<in> set (tasks ?d'). ta_id t' = task_id \<longrightarrow>
              ta_is_completed t' \<and> ta_completed_by_id t' = Some employee_id \<and>
              ta_completed_at t' = Some now"
    unfolding tasks_update_task_completed by (rule complete_task_rows)
  have a: "\<forall>a \<in> set (task_assignments ?d').
              as_task_id a = Some task_id \<and> as_employee_id a = Some employee_id \<longrightarrow>
              as_is_completed a \<and> as_completed_at a = Some now"
    unfolding task_assignments_update_task_completed task_assignments_update_assignment_completed
    by (rule complete_assignment_rows)
  have o: "filter (\<lambda>a. \<not> (as_task_id a = Some task_id \<and> as_employee_id a = Some employee_id))
                  (task_assignments ?d') =
           filter (\<lambda>a. \<not> (as_task_id a = Some task_id \<and> as_employee_id a = Some employee_id))
                  (task_assignments d)"
    unfolding task_assignments_update_task_completed task_assignments_update_assignment_completed
    by (rule filter_others_complete_assignment)
  show ?thesis
    by (intro exI [of _ ?d'] conjI) (rule r s t a o)+
qed


theorem mark_task_completed_manager_override_witness:
  "select_task example_db 1 = Some example_task1 \<and> \<not> ta_is_completed example_task1 \<and>
   truthy (ta_branch_id example_task1) \<and> select_employee_role example_db 1 = Some 1 \<and>
   (\<exists>d'. mark_task_completed example_db 100 1 1 = (True, d') \<and>
      select_task d' 1 =
        Some (example_task1\<lparr>ta_is_completed := True, ta_completed_at := Some 100,
                             ta_completed_by_id := Some 1\<rparr>))"
proof -
  have h1: "select_task example_db 1 = Some example_task1" by (rule example_select_task)
  have h2: "\<not> ta_is_completed example_task1" by (simp add: example_task1_def)
  have h3: "truthy (ta_branch_id example_task1)" by (simp add: example_task1_def)
  have h4: "select_employee_role example_db 1 = Some 1" by (rule example_roles_of)
  have h5: "(1::int) \<le> 2" by simp
  from mark_task_completed_manager_override [OF h1 h2 h3 h4 h5, of 100]
  obtain d' where "mark_task_completed example_db 100 1 1 = (True, d')"
    and "select_task d' 1 =
        Some (example_task1\<lparr>ta_is_completed := True, ta_completed_at := Some 100,
                             ta_completed_by_id := Some 1\<rparr>)"
    by blast
  with h1 h2 h3 h4 show ?thesis by blast
qed

subsection \<open>Completion of a task that is already complete\<close>

text \<open>
  Claim C5.  When the task row found for \<open>task_id\<close> already has its completion
  flag set, \<open>mark_task_completed\<close> returns true for every actor and every clock
  value, and the store it leaves is the store it was given: no task row, no
  completed-by, no timestamp and no assignment row is written.
\<close>

theorem mark_task_completed_already_complete:
  assumes "select_task d task_id = Some t" and "ta_is_completed t"
  shows "mark_task_completed d now task_id employee_id = (True, d)"
  using assms by (simp add: mark_task_completed_def)

theorem mark_task_completed_already_complete_witness:
  "select_task example_db 3 = Some example_task3 \<and> ta_is_completed example_task3 \<and>
   mark_task_completed example_db 100 3 2 = (True, example_db)"
proof -
  have h1: "select_task example_db 3 = Some example_task3" by (rule example_select_task)
  have h2: "ta_is_completed example_task3" by (simp add: example_task3_def)
  show ?thesis
    using h1 h2 mark_task_completed_already_complete [OF h1 h2, of 100 2] by simp
qed

subsection \<open>Direct tasks\<close>

lemma filter_other_tasks_complete_task:
  "filter (\<lambda>t. ta_id t \<noteq> task_id) (map (complete_task now task_id employee_id) ts) =
   filter (\<lambda>t. ta_id t \<noteq> task_id) ts"
proof (induction ts)
  case Nil
  show ?case by simp
next
  case (Cons t ts)
  show ?case
  proof (cases "ta_id t = task_id")
    case True
    then show ?thesis using Cons.IH by (simp add: complete_task_row)
  next
    case False
    then show ?thesis using Cons.IH by (simp add: complete_task_row)
  qed
qed

lemma direct_task_owner_call:
  assumes "select_task d task_id = Some t" and "\<not> ta_is_completed t"
    and "\<not> truthy (ta_branch_id t)" and "ta_employee_id t = Some employee_id"
  shows "mark_task_completed d now task_id employee_id =
           (True, update_task_completed d now task_id employee_id)"
  using assms by (simp add: mark_task_completed_def)

lemma direct_task_other_call:
  assumes "select_task d task_id = Some t" and "\<not> ta_is_completed t"
    and "\<not> truthy (ta_branch_id t)" and "ta_employee_id t \<noteq> Some actor"
  shows "mark_task_completed d now task_id actor = (False, d)"
  using assms by (simp add: mark_task_completed_def)

lemma select_task_completed:
  assumes "select_task d task_id = Some t"
  shows "select_task (update_task_completed d now task_id employee_id) task_id =
           Some (t\<lparr>ta_is_completed := True, ta_completed_at := Some now,
                   ta_completed_by_id := Some employee_id\<rparr>)"
  using assms select_task_id [OF assms]
  by (simp add: select_task_update_task_completed complete_task_selected)

text \<open>
  Claim C7.  Let the task row found for \<open>task_id\<close> be open, with no branch
  target and with employee target \<open>employee_id\<close>.  Called by that employee,
  \<open>mark_task_completed\<close> returns true and sets the completion flag, the
  timestamp of the call and completed-by = the actor on the task (on every row
  with that id), leaving the other task rows and all assignment rows as they
  were.  Called by any other employee it returns false and the store is the one
  it was given.  For every actor the returned boolean is the completion flag of
  the task after the call.
\<close>

theorem mark_task_completed_direct:
  assumes "select_task d task_id = Some t" and "\<not> ta_is_completed t"
    and "\<not> truthy (ta_branch_id t)" and "ta_employee_id t = Some employee_id"
  shows "(\<exists>d'. mark_task_completed d now task_id employee_id = (True, d') \<and>
            select_task d' task_id =
              Some (t\<lparr>ta_is_completed := True, ta_completed_at := Some now,
                      ta_completed_by_id := Some employee_id\<rparr>) \<and>
            (\<forall>t' \<in> set (tasks d'). ta_id t' = task_id \<longrightarrow>
               ta_is_completed t' \<and> ta_completed_by_id t' = Some employee_id \<and>
               ta_completed_at t' = Some now) \<and>
            filter (\<lambda>t'. ta_id t' \<noteq> task_id) (tasks d') =
              filter (\<lambda>t'. ta_id t' \<noteq> task_id) (tasks d) \<and>
            task_assignments d' = task_assignments d) \<and>
         (\<forall>actor. actor \<noteq> employee_id \<longrightarrow>
            mark_task_completed d now task_id actor = (False, d)) \<and>
         (\<forall>actor. fst (mark_task_completed d now task_id actor) =
            task_is_complete (snd (mark_task_completed d now task_id actor)) task_id)"
proof (intro conjI allI impI)
  let ?d' = "update_task_completed d now task_id employee_id"
  have r: "mark_task_completed d now task_id employee_id = (True, ?d')"
    by (rule direct_task_owner_call [OF assms])
  have s: "select_task ?d' task_id =
              Some (t\<lparr>ta_is_completed := True, ta_completed_at := Some now,
                      ta_completed_by_id := Some employee_id\<rparr>)"
    by (rule select_task_completed [OF assms(1)])
  have rows: "\<forall>t' \<in> set (tasks ?d'). ta_id t' = task_id \<longrightarrow>
               ta_is_completed t' \<and> ta_completed_by_id t' = Some employee_id \<and>
               ta_completed_at t' = Some now"
    unfolding tasks_update_task_completed by (rule complete_task_rows)
  have others: "filter (\<lambda>t'. ta_id t' \<noteq> task_id) (tasks ?d') =
              filter (\<lambda>t'. ta_id t' \<noteq> task_id) (tasks d)"
    unfolding tasks_update_task_completed by (rule filter_other_tasks_complete_task)
  have asg: "task_assignments ?d' = task_assignments d" by simp
  show "\<exists>d'. mark_task_completed d now task_id employee_id = (True, d') \<and>
            select_task d' task_id =
              Some (t\<lparr>ta_is_completed := True, ta_completed_at := Some now,
                      ta_completed_by_id := Some employee_id\<rparr>) \<and>
            (\<forall>t' \<in> set (tasks d'). ta_id t' = task_id \<longrightarrow>
               ta_is_completed t' \<and> ta_completed_by_id t' = Some employee_id \<and>
               ta_completed_at t' = Some now) \<and>
            filter (\<lambda>t'. ta_id t' \<noteq> task_id) (tasks d') =
              filter (\<lambda>t'. ta_id t' \<noteq> task_id) (tasks d) \<and>
            task_assignments d' = task_assignments d"
    by (intro exI [of _ ?d'] conjI) (rule r s rows others asg)+
next
  fix actor
  assume "actor \<noteq> employee_id"
  then have "ta_employee_id t \<noteq> Some actor" using assms(4) by simp
  then show "mark_task_completed d now task_id actor = (False, d)"
    by (rule direct_task_other_call [OF assms(1-3)])
next
  fix actor
  show "fst (mark_task_completed d now task_id actor) =
          task_is_complete (snd (mark_task_completed d now task_id actor)) task_id"
  proof (cases "actor = employee_id")
    case True
    then show ?thesis
      using direct_task_owner_call [OF assms, of now]
        select_task_completed [OF assms(1), of now employee_id]
      by (simp add: task_is_complete_def)
  next
    case False
    then have "ta_employee_id t \<noteq> Some actor" using assms(4) by simp
    from direct_task_other_call [OF assms(1-3) this, of now]
    show ?thesis using assms(1,2) by (simp add: task_is_complete_def)
  qed
qed

theorem mark_task_completed_direct_witness:
  "select_task example_db 2 = Some example_task2 \<and> \<not> ta_is_completed example_task2 \<and>
   \<not> truthy (ta_branch_id example_task2) \<and> ta_employee_id example_task2 = Some 2 \<and>
   fst (mark_task_completed example_db 100 2 2) = True \<and>
   mark_task_completed example_db 100 2 3 = (False, example_db)"
proof -
  have h1: "select_task example_db 2 = Some example_task2" by (rule example_select_task)
  have h2: "\<not> ta_is_completed example_task2" by (simp add: example_task2_def)
  have h3: "\<not> truthy (ta_branch_id example_task2)" by (simp add: example_task2_def)
  have h4: "ta_employee_id example_task2 = Some 2" by (simp add: example_task2_def)
  note th = mark_task_completed_direct [OF h1 h2 h3 h4, of 100]
  from th have a: "fst (mark_task_completed example_db 100 2 2) = True" by auto
  from th have "(3::int) \<noteq> 2 \<longrightarrow> mark_task_completed example_db 100 2 3 = (False, example_db)"
    by blast
  then have b: "mark_task_completed example_db 100 2 3 = (False, example_db)" by simp
  show ?thesis using h1 h2 h3 h4 a b by blast
qed

subsection \<open>Reopening\<close>

lemma reopen_task_row_fields:
  "ta_id (reopen_task_row task_id t) = ta_id t"
  "ta_id t = task_id \<Longrightarrow> \<not> ta_is_completed (reopen_task_row task_id t)"
  "ta_id t = task_id \<Longrightarrow> ta_completed_at (reopen_task_row task_id t) = None"
  "ta_id t = task_id \<Longrightarrow> ta_completed_by_id (reopen_task_row task_id t) = None"
  "ta_id t \<noteq> task_id \<Longrightarrow> reopen_task_row task_id t = t"
  by (simp_all add: reopen_task_row_def)

lemma reopen_assignment_row_fields:
  "as_id (reopen_assignment_row task_id a) = as_id a"
  "as_task_id (reopen_assignment_row task_id a) = as_task_id a"
  "as_employee_id (reopen_assignment_row task_id a) = as_employee_id a"
  "as_task_id a = Some task_id \<Longrightarrow> \<not> as_is_completed (reopen_assignment_row task_id a)"
  "as_task_id a = Some task_id \<Longrightarrow> as_completed_at (reopen_assignment_row task_id a) = None"
  "as_task_id a \<noteq> Some task_id \<Longrightarrow> reopen_assignment_row task_id a = a"
  by (simp_all add: reopen_assignment_row_def)

lemma tasks_reopen_task:
  "tasks (reopen_task d task_id) = map (reopen_task_row task_id) (tasks d)"
  by (simp add: reopen_task_def)

lemma task_assignments_reopen_task:
  "task_assignments (reopen_task d task_id) =
     map (reopen_assignment_row task_id) (task_assignments d)"
  by (simp add: reopen_task_def)

lemma filter_other_tasks_reopen:
  "filter (\<lambda>t. ta_id t \<noteq> task_id) (map (reopen_task_row task_id) ts) =
   filter (\<lambda>t. ta_id t \<noteq> task_id) ts"
proof (induction ts)
  case Nil
  show ?case by simp
next
  case (Cons t ts)
  then show ?case by (cases "ta_id t = task_id") (simp_all add: reopen_task_row_fields)
qed

lemma filter_other_assignments_reopen:
  "filter (\<lambda>a. as_task_id a \<noteq> Some task_id) (map (reopen_assignment_row task_id) xs) =
   filter (\<lambda>a. as_task_id a \<noteq> Some task_id) xs"
proof (induction xs)
  case Nil
  show ?case by simp
next
  case (Cons a xs)
  then show ?case
    by (cases "as_task_id a = Some task_id") (simp_all add: reopen_assignment_row_fields)
qed

text \<open>
  Claim C8.  After \<open>reopen_task\<close> every task row with the given id has its
  completion flag false and its completed-at and completed-by NULL, and every
  assignment row of that task is incomplete with a NULL timestamp.  The rows
  keep their identity (ids, task and employee references); the rows of other
  tasks are untouched.  \<open>reopen_task\<close> takes the store and the task id only: it
  has no actor to check, never fails, and does this for every store, whatever
  the task's state was.
\<close>

theorem reopen_task_resets:
  "(\<forall>t \<in> set (tasks (reopen_task d task_id)). ta_id t = task_id \<longrightarrow>
      \<not> ta_is_completed t \<and> ta_completed_at t = None \<and> ta_completed_by_id t = None) \<and>
   (\<forall>a \<in> set (task_assignments (reopen_task d task_id)). as_task_id a = Some task_id \<longrightarrow>
      \<not> as_is_completed a \<and> as_completed_at a = None) \<and>
   map ta_id (tasks (reopen_task d task_id)) = map ta_id (tasks d) \<and>
   map (\<lambda>a. (as_id a, as_task_id a, as_employee_id a)) (task_assignments (reopen_task d task_id)) =
     map (\<lambda>a. (as_id a, as_task_id a, as_employee_id a)) (task_assignments d) \<and>
   filter (\<lambda>t. ta_id t \<noteq> task_id) (tasks (reopen_task d task_id)) =
     filter (\<lambda>t. ta_id t \<noteq> task_id) (tasks d) \<and>
   filter (\<lambda>a. as_task_id a \<noteq> Some task_id) (task_assignments (reopen_task d task_id)) =
     filter (\<lambda>a. as_task_id a \<noteq> Some task_id) (task_assignments d)"
proof (intro conjI)
  show "\<forall>t \<in> set (tasks (reopen_task d task_id)). ta_id t = task_id \<longrightarrow>
      \<not> ta_is_completed t \<and> ta_completed_at t = None \<and> ta_completed_by_id t = None"
    by (simp add: tasks_reopen_task reopen_task_row_fields)
  show "\<forall>a \<in> set (task_assignments (reopen_task d task_id)). as_task_id a = Some task_id \<longrightarrow>
      \<not> as_is_completed a \<and> as_completed_at a = None"
    by (simp add: task_assignments_reopen_task reopen_assignment_row_fields)
  show "map ta_id (tasks (reopen_task d task_id)) = map ta_id (tasks d)"
    by (simp add: tasks_reopen_task reopen_task_row_fields)
  show "map (\<lambda>a. (as_id a, as_task_id a, as_employee_id a)) (task_assignments (reopen_task d task_id)) =
     map (\<lambda>a. (as_id a, as_task_id a, as_employee_id a)) (task_assignments d)"
    by (simp add: task_assignments_reopen_task reopen_assignment_row_fields)
  show "filter (\<lambda>t. ta_id t \<noteq> task_id) (tasks (reopen_task d task_id)) =
     filter (\<lambda>t. ta_id t \<noteq> task_id) (tasks d)"
    unfolding tasks_reopen_task by (rule filter_other_tasks_reopen)
  show "filter (\<lambda>a. as_task_id a \<noteq> Some task_id) (task_assignments (reopen_task d task_id)) =
     filter (\<lambda>a. as_task_id a \<noteq> Some task_id) (task_assignments d)"
    unfolding task_assignments_reopen_task by (rule filter_other_assignments_reopen)
qed

theorem reopen_task_resets_witness:
  "tasks (reopen_task example_db 3) =
     [example_task1, example_task2,
      example_task3\<lparr>ta_is_completed := False, ta_completed_at := None,
                    ta_completed_by_id := None\<rparr>] \<and>
   map as_is_completed (task_assignments (reopen_task example_db 3)) =
     [False, False, False, False, False, False] \<and>
   map as_completed_at (task_assignments (reopen_task example_db 3)) =
     [None, None, None, None, None, None]"
proof -
  have t: "tasks (reopen_task example_db 3) =
     [example_task1, example_task2,
      example_task3\<lparr>ta_is_completed := False, ta_completed_at := None,
                    ta_completed_by_id := None\<rparr>]"
    by (simp add: tasks_reopen_task example_db_def reopen_task_row_def example_task1_def
        example_task2_def example_task3_def)
  have ids: "map as_task_id (task_assignments (reopen_task example_db 3)) =
       [Some 1, Some 1, Some 1, Some 3, Some 3, Some 3]"
    by (simp add: task_assignments_reopen_task reopen_assignment_row_fields example_db_def
        example_assignments_def)
  have keep: "filter (\<lambda>a. as_task_id a \<noteq> Some 3) (task_assignments (reopen_task example_db 3)) =
     filter (\<lambda>a. as_task_id a \<noteq> Some 3) (task_assignments example_db)"
    using reopen_task_resets [of example_db 3] by blast
  have reset: "\<forall>a \<in> set (task_assignments (reopen_task example_db 3)). as_task_id a = Some 3 \<longrightarrow>
      \<not> as_is_completed a \<and> as_completed_at a = None"
    using reopen_task_resets [of example_db 3] by blast
  have len: "length (task_assignments (reopen_task example_db 3)) = 6"
    by (simp add: task_assignments_reopen_task example_db_def example_assignments_def)
  obtain a1 a2 a3 a4 a5 a6 where
    xs: "task_assignments (reopen_task example_db 3) = [a1, a2, a3, a4, a5, a6]"
    using len by (auto simp: length_Suc_conv eval_nat_numeral)
  from ids xs have i: "as_task_id a1 = Some 1" "as_task_id a2 = Some 1" "as_task_id a3 = Some 1"
    "as_task_id a4 = Some 3" "as_task_id a5 = Some 3" "as_task_id a6 = Some 3"
    by simp_all
  from reset xs i have r: "\<not> as_is_completed a4" "as_completed_at a4 = None"
    "\<not> as_is_completed a5" "as_completed_at a5 = None"
    "\<not> as_is_completed a6" "as_completed_at a6 = None"
    by simp_all
  from keep xs i have "[a1, a2, a3] = filter (\<lambda>a. as_task_id a \<noteq> Some 3) (task_assignments example_db)"
    by simp
  then have "[a1, a2, a3] = take 3 example_assignments"
    by (simp add: example_db_def example_assignments_def)
  then have k: "\<not> as_is_completed a1" "as_completed_at a1 = None"
    "\<not> as_is_completed a2" "as_completed_at a2 = None"
    "\<not> as_is_completed a3" "as_completed_at a3 = None"
    by (simp_all add: example_assignments_def)
  show ?thesis using t xs r k by simp
qed

subsection \<open>No membership check on the branch path\<close>

lemma complete_assignment_no_row:
  assumes "filter (\<lambda>a. as_task_id a = Some task_id \<and> as_employee_id a = Some employee_id) xs = []"
  shows "map (complete_assignment now task_id employee_id) xs = xs"
  using assms
proof (induction xs)
  case Nil
  show ?case by simp
next
  case (Cons a xs)
  from Cons.prems have n: "\<not> (as_task_id a = Some task_id \<and> as_employee_id a = Some employee_id)"
    and r: "filter (\<lambda>a. as_task_id a = Some task_id \<and> as_employee_id a = Some employee_id) xs = []"
    by (auto split: if_splits)
  from n have "complete_assignment now task_id employee_id a = a"
    by (auto simp: complete_assignment_other)
  with Cons.IH [OF r] show ?case by simp
qed

lemma mark_task_completed_reads:
  assumes "tasks d2 = tasks d" and "task_assignments d2 = task_assignments d"
    and "is_manager d2 actor = is_manager d actor"
  shows "fst (mark_task_completed d2 now task_id actor) =
           fst (mark_task_completed d now task_id actor) \<and>
         tasks (snd (mark_task_completed d2 now task_id actor)) =
           tasks (snd (mark_task_completed d now task_id actor)) \<and>
         task_assignments (snd (mark_task_completed d2 now task_id actor)) =
           task_assignments (snd (mark_task_completed d now task_id actor))"
proof -
  have s: "select_task d2 task_id = select_task d task_id"
    by (simp add: select_task_def assms(1))
  have a: "task_assignments (update_assignment_completed d2 now task_id actor) =
           task_assignments (update_assignment_completed d now task_id actor)"
    by (simp add: task_assignments_update_assignment_completed assms(2))
  have c: "all_complete (update_assignment_completed d2 now task_id actor) task_id =
           all_complete (update_assignment_completed d now task_id actor) task_id"
    by (simp add: all_complete_def incomplete_assignments_def a)
  have t: "\<And>x y. tasks x = tasks y \<Longrightarrow>
      tasks (update_task_completed x now task_id actor) =
      tasks (update_task_completed y now task_id actor)"
    by (simp add: tasks_update_task_completed)
  show ?thesis
  proof (cases "select_task d task_id")
    case None
    then show ?thesis using s assms(1,2) by (simp add: mark_task_completed_def)
  next
    case (Some row)
    show ?thesis
    proof (cases "ta_is_completed row")
      case True
      then show ?thesis using s Some assms(1,2) by (simp add: mark_task_completed_def)
    next
      case open_task: False
      show ?thesis
      proof (cases "truthy (ta_branch_id row)")
        case False
        then show ?thesis
          using s Some open_task assms(1,2)
          by (simp add: mark_task_completed_def tasks_update_task_completed)
      next
        case True
        then show ?thesis
          using s Some open_task assms c a
          by (simp add: mark_task_completed_def Let_def tasks_update_task_completed)
      qed
    qed
  qed
qed

text \<open>
  Claim C10.  On the branch path \<open>mark_task_completed\<close> reads of the actor only
  the role level.  Let the task row found for \<open>task_id\<close> be open and
  branch-targeted and let the actor's role level be at most 2; nothing is
  assumed of the actor's branch, company or assignments.  Then the call returns
  true and the task is complete, attributed to the actor; the store differs from
  the given one in the task rows and in the actor's own assignment rows only,
  and when the actor has no assignment row for the task the assignment table is
  exactly as before.  The call consults nothing else: on any store with the same
  task and assignment tables in which the actor passes the same role test, it
  returns the same boolean and leaves the same task and assignment tables,
  whatever the branches, companies and other employees of that store are.
\<close>

theorem mark_task_completed_no_membership_check:
  assumes "select_task d task_id = Some t" and "\<not> ta_is_completed t"
    and "truthy (ta_branch_id t)"
    and "select_employee_role d actor = Some l" and "l \<le> 2"
  shows "\<exists>d'. mark_task_completed d now task_id actor = (True, d') \<and>
           select_task d' task_id =
             Some (t\<lparr>ta_is_completed := True, ta_completed_at := Some now,
                     ta_completed_by_id := Some actor\<rparr>) \<and>
           d' = d\<lparr>tasks := map (complete_task now task_id actor) (tasks d),
                  task_assignments :=
                    map (complete_assignment now task_id actor) (task_assignments d)\<rparr> \<and>
           (filter (\<lambda>a. as_task_id a = Some task_id \<and> as_employee_id a = Some actor)
                   (task_assignments d) = [] \<longrightarrow>
              task_assignments d' = task_assignments d) \<and>
           (\<forall>d2. tasks d2 = tasks d \<and> task_assignments d2 = task_assignments d \<and>
                 is_manager d2 actor = is_manager d actor \<longrightarrow>
              fst (mark_task_completed d2 now task_id actor) = True \<and>
              tasks (snd (mark_task_completed d2 now task_id actor)) = tasks d' \<and>
              task_assignments (snd (mark_task_completed d2 now task_id actor)) =
                task_assignments d')"
proof -
  have m: "is_manager d actor"
    using assms(4,5) by (simp add: is_manager_def)
  let ?d' = "update_task_completed (update_assignment_completed d now task_id actor)
               now task_id actor"
  have r: "mark_task_completed d now task_id actor = (True, ?d')"
    by (rule mark_task_completed_manager [OF assms(1-3) m])
  have s: "select_task ?d' task_id =
             Some (t\<lparr>ta_is_completed := True, ta_completed_at := Some now,
                     ta_completed_by_id := Some actor\<rparr>)"
    by (rule select_task_completed) (simp add: assms(1))
  have e: "?d' = d\<lparr>tasks := map (complete_task now task_id actor) (tasks d),
                  task_assignments :=
                    map (complete_assignment now task_id actor) (task_assignments d)\<rparr>"
    by (simp add: update_task_completed_def update_assignment_completed_def)
  have n: "filter (\<lambda>a. as_task_id a = Some task_id \<and> as_employee_id a = Some actor)
                   (task_assignments d) = [] \<longrightarrow>
              task_assignments ?d' = task_assignments d"
    by (simp add: task_assignments_update_assignment_completed complete_assignment_no_row)
  have f: "\<forall>d2. tasks d2 = tasks d \<and> task_assignments d2 = task_assignments d \<and>
                 is_manager d2 actor = is_manager d actor \<longrightarrow>
              fst (mark_task_completed d2 now task_id actor) = True \<and>
              tasks (snd (mark_task_completed d2 now task_id actor)) = tasks ?d' \<and>
              task_assignments (snd (mark_task_completed d2 now task_id actor)) =
                task_assignments ?d'"
  proof (intro allI impI)
    fix d2
    assume "tasks d2 = tasks d \<and> task_assignments d2 = task_assignments d \<and>
                 is_manager d2 actor = is_manager d actor"
    then have "tasks d2 = tasks d" and "task_assignments d2 = task_assignments d"
      and "is_manager d2 actor = is_manager d actor"
      by simp_all
    from mark_task_completed_reads [OF this, of now task_id]
    show "fst (mark_task_completed d2 now task_id actor) = True \<and>
              tasks (snd (mark_task_completed d2 now task_id actor)) = tasks ?d' \<and>
              task_assignments (snd (mark_task_completed d2 now task_id actor)) =
                task_assignments ?d'"
      unfolding r by simp
  qed
  show ?thesis
    by (intro exI [of _ ?d'] conjI) (rule r s e n f)+
qed

theorem mark_task_completed_no_membership_check_witness:
  "select_task example_db 1 = Some example_task1 \<and> \<not> ta_is_completed example_task1 \<and>
   ta_branch_id example_task1 = Some 1 \<and> ta_company_id example_task1 = Some 1 \<and>
   map em_branch_id (filter (\<lambda>e. em_id e = 4) (employees example_db)) = [Some 3] \<and>
   map br_company_id (filter (\<lambda>b. br_id b = 3) (branches example_db)) = [Some 2] \<and>
   select_employee_role example_db 4 = Some 1 \<and>
   filter (\<lambda>a. as_task_id a = Some 1 \<and> as_employee_id a = Some 4)
          (task_assignments example_db) = [] \<and>
   (\<exists>d'. mark_task_completed example_db 100 1 4 = (True, d') \<and>
      select_task d' 1 =
        Some (example_task1\<lparr>ta_is_completed := True, ta_completed_at := Some 100,
                             ta_completed_by_id := Some 4\<rparr>) \<and>
      task_assignments d' = task_assignments example_db)"
proof -
  have h1: "select_task example_db 1 = Some example_task1" by (rule example_select_task)
  have h2: "\<not> ta_is_completed example_task1" by (simp add: example_task1_def)
  have h3: "truthy (ta_branch_id example_task1)" by (simp add: example_task1_def)
  have h4: "select_employee_role example_db 4 = Some 1" by (rule example_roles_of)
  have h5: "(1::int) \<le> 2" by simp
  have b: "ta_branch_id example_task1 = Some 1 \<and> ta_company_id example_task1 = Some 1"
    by (simp add: example_task1_def)
  have e: "map em_branch_id (filter (\<lambda>e. em_id e = 4) (employees example_db)) = [Some 3]"
    by (simp add: example_db_def example_employees_def)
  have c: "map br_company_id (filter (\<lambda>b. br_id b = 3) (branches example_db)) = [Some 2]"
    by (simp add: example_db_def example_branches_def)
  have n: "filter (\<lambda>a. as_task_id a = Some 1 \<and> as_employee_id a = Some 4)
          (task_assignments example_db) = []"
    by (simp add: example_db_def example_assignments_def)
  from mark_task_completed_no_membership_check [OF h1 h2 h3 h4 h5, of 100] n
  have "\<exists>d'. mark_task_completed example_db 100 1 4 = (True, d') \<and>
      select_task d' 1 =
        Some (example_task1\<lparr>ta_is_completed := True, ta_completed_at := Some 100,
                             ta_completed_by_id := Some 4\<rparr>) \<and>
      task_assignments d' = task_assignments example_db"
    by blast
  with h1 h2 b e c h4 n show ?thesis by blast
qed

subsection \<open>Completion by general employees\<close>

lemma incomplete_after_complete_assignment:
  "filter (\<lambda>a. as_task_id a = Some task_id \<and> \<not> as_is_completed a)
          (map (complete_assignment now task_id employee_id) xs) =
   filter (\<lambda>a. as_employee_id a \<noteq> Some employee_id)
          (filter (\<lambda>a. as_task_id a = Some task_id \<and> \<not> as_is_completed a) xs)"
proof (induction xs)
  case Nil
  show ?case by simp
next
  case (Cons a xs)
  show ?case
  proof (cases "as_task_id a = Some task_id \<and> as_employee_id a = Some employee_id")
    case True
    then show ?thesis using Cons.IH by (simp add: complete_assignment_row)
  next
    case False
    then have "complete_assignment now task_id employee_id a = a"
      by (auto simp: complete_assignment_other)
    then show ?thesis using Cons.IH False by auto
  qed
qed

lemma incomplete_assignments_update:
  "incomplete_assignments (update_assignment_completed d now task_id employee_id) task_id =
     filter (\<lambda>a. as_employee_id a \<noteq> Some employee_id) (incomplete_assignments d task_id)"
  unfolding incomplete_assignments_def task_assignments_update_assignment_completed
  by (rule incomplete_after_complete_assignment)

lemma pending_assignees_update:
  "pending_assignees (update_assignment_completed d now task_id employee_id) task_id =
     pending_assignees d task_id - {Some employee_id}"
  unfolding pending_assignees_def incomplete_assignments_update by auto

lemma all_complete_pending: "all_complete d task_id \<longleftrightarrow> pending_assignees d task_id = {}"
  by (simp add: all_complete_def pending_assignees_def)

lemma pending_assignees_update_task_completed [simp]:
  "pending_assignees (update_task_completed d now task_id employee_id) tid = pending_assignees d tid"
  by (simp add: pending_assignees_def incomplete_assignments_def)

lemma is_manager_cong:
  "employees d' = employees d \<Longrightarrow> employee_roles d' = employee_roles d \<Longrightarrow>
   is_manager d' e = is_manager d e"
  by (simp add: is_manager_def select_employee_role_def select_role_levels_def)

lemma update_assignment_completed_tables [simp]:
  "employees (update_assignment_completed d now task_id employee_id) = employees d"
  "employee_roles (update_assignment_completed d now task_id employee_id) = employee_roles d"
  by (simp_all add: update_assignment_completed_def)

lemma mark_task_completed_general_last:
  assumes "select_task d task_id = Some t" and "\<not> ta_is_completed t"
    and "truthy (ta_branch_id t)" and "\<not> is_manager d employee_id"
    and "pending_assignees d task_id \<subseteq> {Some employee_id}"
  shows "mark_task_completed d now task_id employee_id =
           (True, update_task_completed (update_assignment_completed d now task_id employee_id)
                    now task_id employee_id)"
proof -
  have "all_complete (update_assignment_completed d now task_id employee_id) task_id"
    using assms(5) by (auto simp: all_complete_pending pending_assignees_update)
  then show ?thesis
    using assms(1-4) by (simp add: mark_task_completed_def Let_def)
qed

lemma mark_task_completed_general_earlier:
  assumes "select_task d task_id = Some t" and "\<not> ta_is_completed t"
    and "truthy (ta_branch_id t)" and "\<not> is_manager d employee_id"
    and "\<not> pending_assignees d task_id \<subseteq> {Some employee_id}"
  shows "mark_task_completed d now task_id employee_id =
           (False, update_assignment_completed d now task_id employee_id)"
proof -
  have "\<not> all_complete (update_assignment_completed d now task_id employee_id) task_id"
    using assms(5) by (auto simp: all_complete_pending pending_assignees_update)
  then show ?thesis
    using assms(1-4) by (simp add: mark_task_completed_def Let_def)
qed

lemma mark_task_completed_calls_append:
  "mark_task_completed_calls d task_id (xs @ ys) =
     (fst (mark_task_completed_calls d task_id xs) @
        fst (mark_task_completed_calls (snd (mark_task_completed_calls d task_id xs)) task_id ys),
      snd (mark_task_completed_calls (snd (mark_task_completed_calls d task_id xs)) task_id ys))"
  by (induction xs arbitrary: d) (auto simp: split_beta Let_def)

lemma earlier_calls:
  assumes "select_task d task_id = Some t" and "\<not> ta_is_completed t"
    and "truthy (ta_branch_id t)"
    and "\<forall>c \<in> set pre. \<not> is_manager d (snd c)"
    and "\<not> pending_assignees d task_id \<subseteq> Some ` snd ` set pre"
  shows "fst (mark_task_completed_calls d task_id pre) = replicate (length pre) False \<and>
         select_task (snd (mark_task_completed_calls d task_id pre)) task_id = Some t \<and>
         pending_assignees (snd (mark_task_completed_calls d task_id pre)) task_id =
           pending_assignees d task_id - Some ` snd ` set pre \<and>
         employees (snd (mark_task_completed_calls d task_id pre)) = employees d \<and>
         employee_roles (snd (mark_task_completed_calls d task_id pre)) = employee_roles d"
  using assms
proof (induction pre arbitrary: d)
  case Nil
  then show ?case by simp
next
  case (Cons c pre)
  obtain now e where c: "c = (now, e)" by (cases c)
  let ?d1 = "update_assignment_completed d now task_id e"
  have nm: "\<not> is_manager d e" using Cons.prems(4) c by simp
  have np: "\<not> pending_assignees d task_id \<subseteq> {Some e}"
    using Cons.prems(5) c by auto
  have step: "mark_task_completed d now task_id e = (False, ?d1)"
    by (rule mark_task_completed_general_earlier [OF Cons.prems(1-3) nm np])
  have s1: "select_task ?d1 task_id = Some t" using Cons.prems(1) by simp
  have m1: "\<forall>c \<in> set pre. \<not> is_manager ?d1 (snd c)"
    using Cons.prems(4) by simp
  have p1: "\<not> pending_assignees ?d1 task_id \<subseteq> Some ` snd ` set pre"
    using Cons.prems(5) c by (auto simp: pending_assignees_update)
  note ih = Cons.IH [OF s1 Cons.prems(2,3) m1 p1]
  have calls: "mark_task_completed_calls d task_id (c # pre) =
      (False # fst (mark_task_completed_calls ?d1 task_id pre),
       snd (mark_task_completed_calls ?d1 task_id pre))"
    using step c by (simp add: split_beta)
  show ?case
    unfolding calls using ih c by (auto simp: pending_assignees_update)
qed


text \<open>
  Claim C2.  Let the task row found for \<open>task_id\<close> be open and branch-targeted.
  Take any sequence of \<open>mark_task_completed\<close> calls on it, all by actors of role
  level 3, in which the last call is the first one after which every employee
  with a pending assignment has called (so there is at least one pending
  assignment at the start, and the last call completes the last remaining
  one).  Then every earlier call returns false and leaves the task row as it
  was, open; the last call returns true and sets the task complete with
  completed-by the last caller and the timestamp of that call; and no
  assignment of the task is pending any more.
\<close>

theorem all_complete_convergence:
  assumes "select_task d task_id = Some t" and "\<not> ta_is_completed t"
    and "truthy (ta_branch_id t)"
    and "\<forall>c \<in> set (pre @ [(now, employee_id)]). select_employee_role d (snd c) = Some 3"
    and "\<not> pending_assignees d task_id \<subseteq> Some ` snd ` set pre"
    and "pending_assignees d task_id \<subseteq> Some ` snd ` set (pre @ [(now, employee_id)])"
  shows "fst (mark_task_completed_calls d task_id (pre @ [(now, employee_id)])) =
           replicate (length pre) False @ [True] \<and>
         (\<forall>k \<le> length pre.
            select_task (snd (mark_task_completed_calls d task_id (take k pre))) task_id = Some t) \<and>
         select_task (snd (mark_task_completed_calls d task_id (pre @ [(now, employee_id)]))) task_id =
           Some (t\<lparr>ta_is_completed := True, ta_completed_at := Some now,
                   ta_completed_by_id := Some employee_id\<rparr>) \<and>
         pending_assignees (snd (mark_task_completed_calls d task_id (pre @ [(now, employee_id)])))
           task_id = {}"
proof -
  have nm: "\<forall>c \<in> set (pre @ [(now, employee_id)]). \<not> is_manager d (snd c)"
    using assms(4) by (simp add: is_manager_def)
  then have nm_pre: "\<forall>c \<in> set pre. \<not> is_manager d (snd c)" by simp
  let ?d1 = "snd (mark_task_completed_calls d task_id pre)"
  note e = earlier_calls [OF assms(1-3) nm_pre assms(5)]
  have r1: "fst (mark_task_completed_calls d task_id pre) = replicate (length pre) False"
    and s1: "select_task ?d1 task_id = Some t"
    and p1: "pending_assignees ?d1 task_id = pending_assignees d task_id - Some ` snd ` set pre"
    and t1: "employees ?d1 = employees d" "employee_roles ?d1 = employee_roles d"
    using e by simp_all
  have nm1: "\<not> is_manager ?d1 employee_id"
    using nm by (simp add: is_manager_cong [OF t1])
  have last: "pending_assignees ?d1 task_id \<subseteq> {Some employee_id}"
    using assms(6) p1 by auto
  let ?d2 = "update_task_completed (update_assignment_completed ?d1 now task_id employee_id)
               now task_id employee_id"
  have step: "mark_task_completed ?d1 now task_id employee_id = (True, ?d2)"
    by (rule mark_task_completed_general_last [OF s1 assms(2,3) nm1 last])
  have full: "mark_task_completed_calls d task_id (pre @ [(now, employee_id)]) =
      (replicate (length pre) False @ [True], ?d2)"
    using step r1 by (simp add: mark_task_completed_calls_append)
  have open_before: "\<forall>k \<le> length pre.
      select_task (snd (mark_task_completed_calls d task_id (take k pre))) task_id = Some t"
  proof (intro allI impI)
    fix k
    assume "k \<le> length pre"
    have m: "\<forall>c \<in> set (take k pre). \<not> is_manager d (snd c)"
      using nm_pre by (meson in_set_takeD)
    have p: "\<not> pending_assignees d task_id \<subseteq> Some ` snd ` set (take k pre)"
    proof
      assume "pending_assignees d task_id \<subseteq> Some ` snd ` set (take k pre)"
      moreover have "set (take k pre) \<subseteq> set pre" by (rule set_take_subset)
      ultimately have "pending_assignees d task_id \<subseteq> Some ` snd ` set pre" by blast
      with assms(5) show False by simp
    qed
    from earlier_calls [OF assms(1-3) m p]
    show "select_task (snd (mark_task_completed_calls d task_id (take k pre))) task_id = Some t"
      by simp
  qed
  have fin: "select_task ?d2 task_id =
           Some (t\<lparr>ta_is_completed := True, ta_completed_at := Some now,
                   ta_completed_by_id := Some employee_id\<rparr>)"
    by (rule select_task_completed) (simp add: s1)
  have none: "pending_assignees ?d2 task_id = {}"
    using last by (auto simp: pending_assignees_update)
  show ?thesis
    unfolding full using open_before fin none by simp
qed

lemma example_general_facts:
  "select_task example_db_general 4 = Some example_task4"
  "select_employee_role example_db_general 5 = Some 3"
  "select_employee_role example_db_general 7 = Some 3"
  "pending_assignees example_db_general 4 = {Some 5, Some 7}"
  by (simp_all add: select_task_def select_employee_role_def select_role_levels_def
      pending_assignees_def incomplete_assignments_def
      example_db_general_def example_db_def example_task1_def example_task2_def
      example_task3_def example_task4_def example_employees_def example_roles_def
      example_assignments_def)

theorem all_complete_convergence_witness:
  "select_task example_db_general 4 = Some example_task4 \<and>
   \<not> ta_is_completed example_task4 \<and> truthy (ta_branch_id example_task4) \<and>
   pending_assignees example_db_general 4 = {Some 5, Some 7} \<and>
   select_employee_role example_db_general 5 = Some 3 \<and>
   select_employee_role example_db_general 7 = Some 3 \<and>
   fst (mark_task_completed_calls example_db_general 4 [(10, 5), (20, 5), (30, 7)]) =
     [False, False, True] \<and>
   select_task (snd (mark_task_completed_calls example_db_general 4 [(10, 5), (20, 5), (30, 7)])) 4 =
     Some (example_task4\<lparr>ta_is_completed := True, ta_completed_at := Some 30,
                          ta_completed_by_id := Some 7\<rparr>)"
proof -
  note f = example_general_facts
  have h2: "\<not> ta_is_completed example_task4" by (simp add: example_task4_def)
  have h3: "truthy (ta_branch_id example_task4)" by (simp add: example_task4_def)
  have h4: "\<forall>c \<in> set ([(10, 5), (20, 5)] @ [(30, 7)]).
              select_employee_role example_db_general (snd c) = Some 3"
    by (simp add: f)
  have h5: "\<not> pending_assignees example_db_general 4 \<subseteq> Some ` snd ` set [(10::int, 5), (20, 5)]"
    by (simp add: f)
  have h6: "pending_assignees example_db_general 4 \<subseteq>
              Some ` snd ` set ([(10::int, 5), (20, 5)] @ [(30, 7)])"
    by (simp add: f)
  from all_complete_convergence [OF f(1) h2 h3 h4 h5 h6]
  have "fst (mark_task_completed_calls example_db_general 4 [(10, 5), (20, 5), (30, 7)]) =
     [False, False, True]"
    and "select_task (snd (mark_task_completed_calls example_db_general 4
            [(10, 5), (20, 5), (30, 7)])) 4 =
     Some (example_task4\<lparr>ta_is_completed := True, ta_completed_at := Some 30,
                          ta_completed_by_id := Some 7\<rparr>)"
    by (simp_all add: eval_nat_numeral)
  with f h2 h3 show ?thesis by simp
qed

section \<open>Properties of the activation cascade\<close>

lemma ball_map_if:
  "(\<forall>y \<in> set (map (\<lambda>x. if c x then f x else x) xs). P y) \<longleftrightarrow>
   (\<forall>x \<in> set xs. (c x \<longrightarrow> P (f x)) \<and> (\<not> c x \<longrightarrow> P x))"
  by (induction xs) simp_all

lemma map_key_map_if:
  assumes "\<And>x. k (f x) = k x"
  shows "map k (map (\<lambda>x. if c x then f x else x) xs) = map k xs"
  by (induction xs) (simp_all add: assms)

lemma company_branch_ids_map:
  assumes "\<And>b. br_id (f b) = br_id b" and "\<And>b. br_company_id (f b) = br_company_id b"
  shows "map br_id (filter (\<lambda>b. br_company_id b = Some company_id) (map f bs)) =
         map br_id (filter (\<lambda>b. br_company_id b = Some company_id) bs)"
  by (induction bs) (simp_all add: assms)

lemma companies_update_company_status:
  "companies (update_company_status d company_id is_active) =
     map (\<lambda>c. if co_id c = company_id then c\<lparr>co_is_active := is_active\<rparr> else c) (companies d)"
  by (simp add: update_company_status_def Let_def)

lemma branches_update_company_status:
  "branches (update_company_status d company_id is_active) =
     map (\<lambda>b. if br_company_id b = Some company_id then b\<lparr>br_is_active := is_active\<rparr> else b)
         (branches d)"
  by (simp add: update_company_status_def Let_def)

lemma company_branch_ids_update_company_status:
  "company_branch_ids (update_company_status d company_id is_active) cid =
     company_branch_ids d cid"
  unfolding company_branch_ids_def branches_update_company_status
  by (rule company_branch_ids_map) simp_all

lemma employees_update_company_status:
  "employees (update_company_status d company_id is_active) =
     map (\<lambda>e. if in_company d company_id e then e\<lparr>em_is_active := is_active\<rparr> else e)
         (employees d)"
proof -
  let ?d2 = "d\<lparr>companies :=
                   map (\<lambda>c. if co_id c = company_id then c\<lparr>co_is_active := is_active\<rparr> else c)
                       (companies d),
              branches :=
                    map (\<lambda>b. if br_company_id b = Some company_id
                             then b\<lparr>br_is_active := is_active\<rparr> else b)
                        (branches d)\<rparr>"
  have "company_branch_ids ?d2 company_id = company_branch_ids d company_id"
    unfolding company_branch_ids_def by (simp add: company_branch_ids_map)
  then have "in_company ?d2 company_id = in_company d company_id"
    by (simp add: in_company_def fun_eq_iff split: option.split)
  then show ?thesis
    by (simp add: update_company_status_def Let_def)
qed

lemma branches_update_branch_status:
  "branches (update_branch_status d branch_id is_active) =
     map (\<lambda>b. if br_id b = branch_id then b\<lparr>br_is_active := is_active\<rparr> else b) (branches d)"
  by (simp add: update_branch_status_def)

lemma employees_update_branch_status:
  "employees (update_branch_status d branch_id is_active) =
     map (\<lambda>e. if em_branch_id e = Some branch_id then e\<lparr>em_is_active := is_active\<rparr> else e)
         (employees d)"
  by (simp add: update_branch_status_def)

lemma in_company_iff:
  "in_company d company_id e \<longleftrightarrow>
     (\<exists>b \<in> set (branches d). br_company_id b = Some company_id \<and> em_branch_id e = Some (br_id b))"
  by (cases "em_branch_id e") (auto simp: in_company_def company_branch_ids_def)

lemma in_company_update_company_status:
  "in_company (update_company_status d company_id is_active) cid e = in_company d cid e"
  by (simp add: in_company_def company_branch_ids_update_company_status split: option.split)

lemma company_deactivation_cascades:
  fixes d company_id
  defines "d' \<equiv> update_company_status d company_id False"
  shows "(\<forall>c \<in> set (companies d'). co_id c = company_id \<longrightarrow> \<not> co_is_active c) \<and>
     (\<forall>b \<in> set (branches d'). br_company_id b = Some company_id \<longrightarrow> \<not> br_is_active b) \<and>
     (\<forall>e \<in> set (employees d'). in_company d' company_id e \<longrightarrow> \<not> em_is_active e) \<and>
     map co_id (companies d') = map co_id (companies d) \<and>
     map (\<lambda>b. (br_id b, br_company_id b)) (branches d') =
       map (\<lambda>b. (br_id b, br_company_id b)) (branches d) \<and>
     map (\<lambda>e. (em_id e, em_branch_id e)) (employees d') =
       map (\<lambda>e. (em_id e, em_branch_id e)) (employees d)"
proof (intro conjI)
  show "\<forall>c \<in> set (companies d'). co_id c = company_id \<longrightarrow> \<not> co_is_active c"
    unfolding d'_def companies_update_company_status ball_map_if by simp
  show "\<forall>b \<in> set (branches d'). br_company_id b = Some company_id \<longrightarrow> \<not> br_is_active b"
    unfolding d'_def branches_update_company_status ball_map_if by simp
  show "\<forall>e \<in> set (employees d'). in_company d' company_id e \<longrightarrow> \<not> em_is_active e"
    unfolding d'_def in_company_update_company_status employees_update_company_status ball_map_if
    by (simp add: in_company_def)
  show "map co_id (companies d') = map co_id (companies d)"
    unfolding d'_def companies_update_company_status by (rule map_key_map_if) simp
  show "map (\<lambda>b. (br_id b, br_company_id b)) (branches d') =
       map (\<lambda>b. (br_id b, br_company_id b)) (branches d)"
    unfolding d'_def branches_update_company_status by (rule map_key_map_if) simp
  show "map (\<lambda>e. (em_id e, em_branch_id e)) (employees d') =
       map (\<lambda>e. (em_id e, em_branch_id e)) (employees d)"
    unfolding d'_def employees_update_company_status by (rule map_key_map_if) simp
qed

lemma branch_reactivation_cascades:
  fixes d branch_id
  defines "d' \<equiv> update_branch_status d branch_id True"
  shows "(\<forall>b \<in> set (branches d'). br_id b = branch_id \<longrightarrow> br_is_active b) \<and>
     (\<forall>e \<in> set (employees d'). em_branch_id e = Some branch_id \<longrightarrow> em_is_active e) \<and>
     map (\<lambda>b. (br_id b, br_company_id b)) (branches d') =
       map (\<lambda>b. (br_id b, br_company_id b)) (branches d) \<and>
     map (\<lambda>e. (em_id e, em_branch_id e)) (employees d') =
       map (\<lambda>e. (em_id e, em_branch_id e)) (employees d)"
proof (intro conjI)
  show "\<forall>b \<in> set (branches d'). br_id b = branch_id \<longrightarrow> br_is_active b"
    unfolding d'_def branches_update_branch_status ball_map_if by simp
  show "\<forall>e \<in> set (employees d'). em_branch_id e = Some branch_id \<longrightarrow> em_is_active e"
    unfolding d'_def employees_update_branch_status ball_map_if by simp
  show "map (\<lambda>b. (br_id b, br_company_id b)) (branches d') =
       map (\<lambda>b. (br_id b, br_company_id b)) (branches d)"
    unfolding d'_def branches_update_branch_status by (rule map_key_map_if) simp
  show "map (\<lambda>e. (em_id e, em_branch_id e)) (employees d') =
       map (\<lambda>e. (em_id e, em_branch_id e)) (employees d)"
    unfolding d'_def employees_update_branch_status by (rule map_key_map_if) simp
qed


text \<open>
  Claim C3, as amended.  \<open>update_company_status\<close> with \<open>is_active = False\<close>
  leaves the company, every branch of the company and every employee of one of
  those branches inactive (the rows keep their ids and references).  The
  cascade is not one-way: \<open>update_branch_status\<close> with \<open>is_active = True\<close> sets
  the branch active and every employee of the branch active as well.
\<close>

theorem status_cascade:
  "(\<forall>c \<in> set (companies (update_company_status d company_id False)).
      co_id c = company_id \<longrightarrow> \<not> co_is_active c) \<and>
   (\<forall>b \<in> set (branches (update_company_status d company_id False)).
      br_company_id b = Some company_id \<longrightarrow> \<not> br_is_active b) \<and>
   (\<forall>e \<in> set (employees (update_company_status d company_id False)).
      (\<exists>b \<in> set (branches (update_company_status d company_id False)).
         br_company_id b = Some company_id \<and> em_branch_id e = Some (br_id b)) \<longrightarrow>
      \<not> em_is_active e) \<and>
   map co_id (companies (update_company_status d company_id False)) = map co_id (companies d) \<and>
   map (\<lambda>b. (br_id b, br_company_id b)) (branches (update_company_status d company_id False)) =
     map (\<lambda>b. (br_id b, br_company_id b)) (branches d) \<and>
   map (\<lambda>e. (em_id e, em_branch_id e)) (employees (update_company_status d company_id False)) =
     map (\<lambda>e. (em_id e, em_branch_id e)) (employees d) \<and>
   (\<forall>b \<in> set (branches (update_branch_status d branch_id True)).
      br_id b = branch_id \<longrightarrow> br_is_active b) \<and>
   (\<forall>e \<in> set (employees (update_branch_status d branch_id True)).
      em_branch_id e = Some branch_id \<longrightarrow> em_is_active e) \<and>
   map (\<lambda>e. (em_id e, em_branch_id e)) (employees (update_branch_status d branch_id True)) =
     map (\<lambda>e. (em_id e, em_branch_id e)) (employees d)"
  using company_deactivation_cascades [of d company_id]
    branch_reactivation_cascades [of d branch_id]
  unfolding in_company_iff by blast

theorem status_cascade_witness:
  "map (\<lambda>c. (co_id c, co_is_active c)) (companies (update_company_status example_db 1 False)) =
     [(1, False), (2, True)] \<and>
   map (\<lambda>b. (br_id b, br_is_active b)) (branches (update_company_status example_db 1 False)) =
     [(1, False), (2, False), (3, True)] \<and>
   map (\<lambda>e. (em_id e, em_is_active e)) (employees (update_company_status example_db 1 False)) =
     [(1, False), (2, False), (3, False), (4, True), (5, True), (6, False)] \<and>
   map (\<lambda>e. (em_id e, em_is_active e)) (employees (update_branch_status example_db 2 True)) =
     [(1, True), (2, True), (3, True), (4, True), (5, True), (6, True)]"
  using status_cascade [of example_db 1 2]
  by (simp add: companies_update_company_status branches_update_company_status
      employees_update_company_status employees_update_branch_status in_company_def
      company_branch_ids_def example_db_def example_companies_def example_branches_def
      example_employees_def)

text \<open>
  The claim as first stated has reactivation leave the employees alone.  In the
  example store the first three employees belong to branch 1 and the last one,
  inactive, to branch 2.  Deactivating branch 1 deactivates its three employees
  and reactivating it activates all three again; reactivating branch 2
  activates its one employee, who was inactive before.
\<close>

theorem branch_reactivation_counterexample:
  "map em_branch_id (employees example_db) =
     [Some 1, Some 1, Some 1, Some 3, Some 3, Some 2] \<and>
   map em_is_active (employees example_db) = [True, True, True, True, True, False] \<and>
   map em_is_active (employees (update_branch_status example_db 1 False)) =
     [False, False, False, True, True, False] \<and>
   map em_is_active (employees (update_branch_status (update_branch_status example_db 1 False) 1 True)) =
     [True, True, True, True, True, False] \<and>
   map em_is_active (employees (update_branch_status example_db 2 True)) =
     [True, True, True, True, True, True]"
  by (simp add: employees_update_branch_status example_db_def example_employees_def)

section \<open>Properties of task creation\<close>

subsection \<open>Key lookups\<close>

lemma has_employee_cong: "employees d' = employees d \<Longrightarrow> has_employee d' = has_employee d"
  by (simp add: has_employee_def fun_eq_iff)

lemma has_branch_cong: "branches d' = branches d \<Longrightarrow> has_branch d' = has_branch d"
  by (simp add: has_branch_def fun_eq_iff)

lemma has_role_cong: "employee_roles d' = employee_roles d \<Longrightarrow> has_role d' = has_role d"
  by (simp add: has_role_def fun_eq_iff)

lemma below_seq_unused:
  fixes n :: int
  assumes "\<forall>x \<in> set xs. key x < n"
  shows "n \<notin> set (map key xs)"
  using assms by auto

lemma store_keys_okD:
  assumes "store_keys_ok d"
  shows "distinct (map em_id (employees d))"
    and "\<not> has_task d (tasks_id_seq d)"
    and "\<not> has_employee d (employees_id_seq d)"
    and "\<forall>a \<in> set (task_assignments d). as_id a < task_assignments_id_seq d"
    and "\<forall>a \<in> set (task_assignments d). as_task_id a \<noteq> Some (tasks_id_seq d)"
    and "\<forall>t \<in> set (tasks d). ta_id t \<noteq> tasks_id_seq d"
proof -
  from assms have k: "distinct (map em_id (employees d))"
    "\<forall>t \<in> set (tasks d). ta_id t < tasks_id_seq d"
    "\<forall>e \<in> set (employees d). em_id e < employees_id_seq d"
    "\<forall>a \<in> set (task_assignments d). as_id a < task_assignments_id_seq d"
    "\<forall>a \<in> set (task_assignments d). fk_ok (has_task d) (as_task_id a)"
    by (simp_all add: store_keys_ok_def)
  show "distinct (map em_id (employees d))" by (rule k(1))
  show nt: "\<not> has_task d (tasks_id_seq d)"
    unfolding has_task_def by (rule below_seq_unused [OF k(2)])
  show "\<not> has_employee d (employees_id_seq d)"
    unfolding has_employee_def by (rule below_seq_unused [OF k(3)])
  show "\<forall>a \<in> set (task_assignments d). as_id a < task_assignments_id_seq d" by (rule k(4))
  show "\<forall>a \<in> set (task_assignments d). as_task_id a \<noteq> Some (tasks_id_seq d)"
  proof
    fix a assume "a \<in> set (task_assignments d)"
    with k(5) have f: "fk_ok (has_task d) (as_task_id a)" by simp
    show "as_task_id a \<noteq> Some (tasks_id_seq d)"
    proof
      assume "as_task_id a = Some (tasks_id_seq d)"
      with f have "has_task d (tasks_id_seq d)" by simp
      with nt show False by simp
    qed
  qed
  show "\<forall>t \<in> set (tasks d). ta_id t \<noteq> tasks_id_seq d"
    using k(2) by auto
qed

subsection \<open>The inserts that the store accepts\<close>

lemma insert_task_accepted:
  assumes "\<not> has_task d (tasks_id_seq d)" and "has_company d company_id"
    and "fk_ok (has_branch d) branch_id" and "fk_ok (has_employee d) employee_id"
  shows "insert_task d company_id branch_id employee_id task_description due_date =
     Inr (tasks_id_seq d,
      d\<lparr>tasks := tasks d @
            [\<lparr>ta_id = tasks_id_seq d, ta_company_id = Some company_id, ta_branch_id = branch_id,
              ta_employee_id = employee_id, ta_task_description = task_description,
              ta_due_date = due_date, ta_is_completed = False,
              ta_completed_by_id = None, ta_completed_at = None\<rparr>],
         tasks_id_seq := tasks_id_seq d + 1\<rparr>)"
  using assms by (simp add: insert_task_def Let_def)

lemma insert_assignment_accepted:
  assumes "\<forall>a \<in> set (task_assignments d). as_id a < task_assignments_id_seq d"
    and "has_task d task_id" and "has_employee d e"
    and "\<forall>a \<in> set (task_assignments d). as_task_id a = Some task_id \<longrightarrow>
           as_employee_id a \<noteq> Some e"
  shows "insert_assignment d task_id e =
     Inr (d\<lparr>task_assignments := task_assignments d @
               [\<lparr>as_id = task_assignments_id_seq d, as_task_id = Some task_id,
                 as_employee_id = Some e, as_is_completed = False, as_completed_at = None\<rparr>],
             task_assignments_id_seq := task_assignments_id_seq d + 1\<rparr>)"
proof -
  have 1: "task_assignments_id_seq d \<notin> set (map as_id (task_assignments d))"
    by (rule below_seq_unused [OF assms(1)])
  have 2: "(Some task_id, Some e) \<notin>
             set (map (\<lambda>a. (as_task_id a, as_employee_id a)) (task_assignments d))"
    using assms(4) by auto
  show ?thesis
    using 1 2 assms(2,3) by (simp add: insert_assignment_def)
qed

lemma insert_assignments_accepted:
  assumes "\<forall>a \<in> set (task_assignments d). as_id a < task_assignments_id_seq d"
    and "has_task d task_id" and "\<forall>e \<in> set emps. has_employee d e" and "distinct emps"
    and "\<forall>a \<in> set (task_assignments d). as_task_id a = Some task_id \<longrightarrow>
           as_employee_id a \<notin> Some ` set emps"
  shows "\<exists>new. insert_assignments d task_id emps =
           Inr (d\<lparr>task_assignments := task_assignments d @ new,
                   task_assignments_id_seq := task_assignments_id_seq d + int (length emps)\<rparr>) \<and>
         map as_employee_id new = map Some emps \<and>
         map as_task_id new = replicate (length emps) (Some task_id) \<and>
         map as_is_completed new = replicate (length emps) False \<and>
         map as_completed_at new = replicate (length emps) None"
  using assms
proof (induction emps arbitrary: d)
  case Nil
  show ?case by (intro exI [of _ "[]"]) simp
next
  case (Cons e emps)
  let ?row = "\<lparr>as_id = task_assignments_id_seq d, as_task_id = Some task_id,
               as_employee_id = Some e, as_is_completed = False, as_completed_at = None\<rparr>"
  let ?d1 = "d\<lparr>task_assignments := task_assignments d @ [?row],
               task_assignments_id_seq := task_assignments_id_seq d + 1\<rparr>"
  have he: "has_employee d e" using Cons.prems(3) by simp
  have ne: "\<forall>a \<in> set (task_assignments d). as_task_id a = Some task_id \<longrightarrow>
           as_employee_id a \<noteq> Some e"
    using Cons.prems(5) by auto
  have step: "insert_assignment d task_id e = Inr ?d1"
    by (rule insert_assignment_accepted [OF Cons.prems(1,2) he ne])
  have i1: "\<forall>a \<in> set (task_assignments ?d1). as_id a < task_assignments_id_seq ?d1"
    using Cons.prems(1) by auto
  have i2: "has_task ?d1 task_id"
    using Cons.prems(2) by (simp add: has_task_def)
  have i3: "\<forall>x \<in> set emps. has_employee ?d1 x"
    using Cons.prems(3) by (simp add: has_employee_def)
  have i4: "distinct emps" using Cons.prems(4) by simp
  have i5: "\<forall>a \<in> set (task_assignments ?d1). as_task_id a = Some task_id \<longrightarrow>
           as_employee_id a \<notin> Some ` set emps"
    using Cons.prems(4,5) by auto
  from Cons.IH [OF i1 i2 i3 i4 i5] obtain new where
    r: "insert_assignments ?d1 task_id emps =
           Inr (?d1\<lparr>task_assignments := task_assignments ?d1 @ new,
                   task_assignments_id_seq := task_assignments_id_seq ?d1 + int (length emps)\<rparr>)"
    and n: "map as_employee_id new = map Some emps"
      "map as_task_id new = replicate (length emps) (Some task_id)"
      "map as_is_completed new = replicate (length emps) False"
      "map as_completed_at new = replicate (length emps) None"
    by (elim exE conjE)
  have "insert_assignments d task_id (e # emps) =
           Inr (d\<lparr>task_assignments := task_assignments d @ (?row # new),
                   task_assignments_id_seq :=
                     task_assignments_id_seq d + int (length (e # emps))\<rparr>)"
    by (simp add: step r add.assoc)
  then show ?case
    by (intro exI [of _ "?row # new"] conjI) (simp_all add: n)
qed

lemma add_employee_result:
  assumes "add_employee d b r u p f pic = Inr d'"
  shows "d' = d\<lparr>employees := employees d @
                 [\<lparr>em_id = employees_id_seq d, em_branch_id = Some b, em_role_id = Some r,
                   em_username = u, em_full_name = f, em_is_active = True\<rparr>],
               employees_id_seq := employees_id_seq d + 1\<rparr>"
  using assms by (simp add: add_employee_def split: if_splits)

lemma add_employee_accepted:
  assumes "\<not> has_employee d (employees_id_seq d)"
    and "length u \<le> 50" and "length p \<le> 255" and "length f \<le> 100"
    and "has_branch d b" and "has_role d r" and "u \<notin> set (map em_username (employees d))"
  shows "\<exists>d'. add_employee d b r u p f pic = Inr d'"
  using assms by (simp add: add_employee_def)

lemma select_task_append_fresh:
  assumes "\<forall>t \<in> set ts. ta_id t \<noteq> ta_id row"
  shows "find (\<lambda>t. ta_id t = ta_id row) (ts @ [row]) = Some row"
  using assms by (induction ts) simp_all

lemma filter_append_none:
  assumes "\<forall>x \<in> set xs. \<not> P x" and "\<forall>y \<in> set ys. P y"
  shows "filter P (xs @ ys) = ys"
  using assms by (simp add: filter_empty_conv filter_id_conv)

lemma create_task_branch:
  assumes "truthy branch_id" and "\<not> truthy employee_id"
    and "store_keys_ok d" and "has_company d company_id"
    and "fk_ok (has_branch d) branch_id" and "fk_ok (has_employee d) employee_id"
  shows "\<exists>new. create_task d company_id task_description due_date branch_id employee_id =
     Inr (tasks_id_seq d,
       d\<lparr>tasks := tasks d @
            [\<lparr>ta_id = tasks_id_seq d, ta_company_id = Some company_id, ta_branch_id = branch_id,
              ta_employee_id = employee_id, ta_task_description = task_description,
              ta_due_date = due_date, ta_is_completed = False,
              ta_completed_by_id = None, ta_completed_at = None\<rparr>],
          tasks_id_seq := tasks_id_seq d + 1,
          task_assignments := task_assignments d @ new,
          task_assignments_id_seq := task_assignments_id_seq d +
            int (length (select_active_branch_employees d branch_id))\<rparr>) \<and>
     map as_employee_id new = map Some (select_active_branch_employees d branch_id) \<and>
     map as_task_id new =
       replicate (length (select_active_branch_employees d branch_id)) (Some (tasks_id_seq d)) \<and>
     map as_is_completed new =
       replicate (length (select_active_branch_employees d branch_id)) False \<and>
     map as_completed_at new =
       replicate (length (select_active_branch_employees d branch_id)) None"
proof -
  let ?tid = "tasks_id_seq d"
  let ?row = "\<lparr>ta_id = ?tid, ta_company_id = Some company_id, ta_branch_id = branch_id,
         ta_employee_id = employee_id, ta_task_description = task_description,
         ta_due_date = due_date, ta_is_completed = False,
         ta_completed_by_id = None, ta_completed_at = None\<rparr>"
  let ?d1 = "d\<lparr>tasks := tasks d @ [?row], tasks_id_seq := ?tid + 1\<rparr>"
  let ?emps = "select_active_branch_employees d branch_id"
  note k = store_keys_okD [OF assms(3)]
  have it: "insert_task d company_id branch_id employee_id task_description due_date =
              Inr (?tid, ?d1)"
    by (rule insert_task_accepted [OF k(2) assms(4,5,6)])
  have e1: "select_active_branch_employees ?d1 branch_id = ?emps"
    by (simp add: select_active_branch_employees_def)
  have i1: "\<forall>a \<in> set (task_assignments ?d1). as_id a < task_assignments_id_seq ?d1"
    using k(4) by simp
  have i2: "has_task ?d1 ?tid" by (simp add: has_task_def)
  have i3: "\<forall>e \<in> set ?emps. has_employee ?d1 e"
    by (auto simp: select_active_branch_employees_def has_employee_def)
  have i4: "distinct ?emps"
    unfolding select_active_branch_employees_def by (rule distinct_map_filter [OF k(1)])
  have i5: "\<forall>a \<in> set (task_assignments ?d1). as_task_id a = Some ?tid \<longrightarrow>
           as_employee_id a \<notin> Some ` set ?emps"
    using k(5) by simp
  from insert_assignments_accepted [OF i1 i2 i3 i4 i5] obtain new where
    r: "insert_assignments ?d1 ?tid ?emps =
           Inr (?d1\<lparr>task_assignments := task_assignments ?d1 @ new,
                   task_assignments_id_seq := task_assignments_id_seq ?d1 + int (length ?emps)\<rparr>)"
    and n: "map as_employee_id new = map Some ?emps"
      "map as_task_id new = replicate (length ?emps) (Some ?tid)"
      "map as_is_completed new = replicate (length ?emps) False"
      "map as_completed_at new = replicate (length ?emps) None"
    by (elim exE conjE)
  have "create_task d company_id task_description due_date branch_id employee_id =
     Inr (?tid,
       d\<lparr>tasks := tasks d @ [?row], tasks_id_seq := ?tid + 1,
          task_assignments := task_assignments d @ new,
          task_assignments_id_seq := task_assignments_id_seq d + int (length ?emps)\<rparr>)"
    using assms(1,2) by (simp add: create_task_def it e1 r)
  then show ?thesis
    by (intro exI [of _ new] conjI) (simp_all add: n)
qed

subsection \<open>Fan-out\<close>

text \<open>
  Claim C6.  Take a store that satisfies its key constraints and a
  branch-targeted \<open>create_task\<close> call (a branch given, no employee) whose
  company and branch have rows.  The call is accepted; it returns the
  identifier of the task row it appends, which is open, and appends one
  assignment row per employee that is active in the branch at that moment, in
  table order: as many rows as there are such employees, each keyed to the new
  task and to one of those employees, incomplete, without a timestamp.  These
  are all the assignment rows of the task.  An \<open>add_employee\<close> call afterwards
  that the store accepts (it accepts every call with strings that fit their
  columns, a branch and a role that have rows and an unused username) appends
  an employee row and leaves the assignment table as it is: no assignment of
  the task is keyed to the new employee.
\<close>

theorem create_task_fan_out:
  assumes "truthy branch_id" and "\<not> truthy employee_id"
    and "store_keys_ok d" and "has_company d company_id"
    and "fk_ok (has_branch d) branch_id" and "fk_ok (has_employee d) employee_id"
  shows "\<exists>d' new.
     create_task d company_id task_description due_date branch_id employee_id =
       Inr (tasks_id_seq d, d') \<and>
     tasks d' = tasks d @
       [\<lparr>ta_id = tasks_id_seq d, ta_company_id = Some company_id, ta_branch_id = branch_id,
         ta_employee_id = employee_id, ta_task_description = task_description,
         ta_due_date = due_date, ta_is_completed = False,
         ta_completed_by_id = None, ta_completed_at = None\<rparr>] \<and>
     task_assignments d' = task_assignments d @ new \<and>
     length new =
       length (filter (\<lambda>e. em_branch_id e = branch_id \<and> em_is_active e) (employees d)) \<and>
     map as_employee_id new =
       map (\<lambda>e. Some (em_id e))
           (filter (\<lambda>e. em_branch_id e = branch_id \<and> em_is_active e) (employees d)) \<and>
     (\<forall>a \<in> set new. as_task_id a = Some (tasks_id_seq d) \<and> \<not> as_is_completed a \<and>
        as_completed_at a = None) \<and>
     filter (\<lambda>a. as_task_id a = Some (tasks_id_seq d)) (task_assignments d') = new \<and>
     (\<forall>b r u p f pic.
        length u \<le> 50 \<and> length p \<le> 255 \<and> length f \<le> 100 \<and> has_branch d b \<and> has_role d r \<and>
        u \<notin> set (map em_username (employees d)) \<longrightarrow>
        (\<exists>d''. add_employee d' b r u p f pic = Inr d'')) \<and>
     (\<forall>b r u p f pic d''. add_employee d' b r u p f pic = Inr d'' \<longrightarrow>
        task_assignments d'' = task_assignments d' \<and>
        map em_id (employees d'') = map em_id (employees d) @ [employees_id_seq d] \<and>
        filter (\<lambda>a. as_task_id a = Some (tasks_id_seq d) \<and>
                     as_employee_id a = Some (employees_id_seq d))
               (task_assignments d'') = [])"
proof -
  let ?tid = "tasks_id_seq d"
  let ?row = "\<lparr>ta_id = ?tid, ta_company_id = Some company_id, ta_branch_id = branch_id,
         ta_employee_id = employee_id, ta_task_description = task_description,
         ta_due_date = due_date, ta_is_completed = False,
         ta_completed_by_id = None, ta_completed_at = None\<rparr>"
  let ?act = "filter (\<lambda>e. em_branch_id e = branch_id \<and> em_is_active e) (employees d)"
  let ?emps = "select_active_branch_employees d branch_id"
  note k = store_keys_okD [OF assms(3)]
  have bn: "branch_id \<noteq> None" using assms(1) by (cases branch_id) simp_all
  have emps: "?emps = map em_id ?act"
    using bn by (simp add: select_active_branch_employees_def)
  from create_task_branch [OF assms, of task_description due_date] obtain new where
    r0: "create_task d company_id task_description due_date branch_id employee_id =
      Inr (?tid,
        d\<lparr>tasks := tasks d @ [?row], tasks_id_seq := ?tid + 1,
           task_assignments := task_assignments d @ new,
           task_assignments_id_seq := task_assignments_id_seq d + int (length ?emps)\<rparr>)"
    and n: "map as_employee_id new = map Some ?emps"
      "map as_task_id new = replicate (length ?emps) (Some ?tid)"
      "map as_is_completed new = replicate (length ?emps) False"
      "map as_completed_at new = replicate (length ?emps) None"
    by (elim exE conjE)
  define d' where "d' = d\<lparr>tasks := tasks d @ [?row], tasks_id_seq := ?tid + 1,
           task_assignments := task_assignments d @ new,
           task_assignments_id_seq := task_assignments_id_seq d + int (length ?emps)\<rparr>"
  have r: "create_task d company_id task_description due_date branch_id employee_id =
             Inr (?tid, d')"
    unfolding d'_def by (rule r0)
  have t: "tasks d' = tasks d @ [?row]" by (simp add: d'_def)
  have a: "task_assignments d' = task_assignments d @ new" by (simp add: d'_def)
  have same: "employees d' = employees d" "branches d' = branches d"
    "employee_roles d' = employee_roles d" "employees_id_seq d' = employees_id_seq d"
    by (simp_all add: d'_def)
  have len: "length new = length ?act"
    using arg_cong [OF n(1), of length] by (simp add: emps)
  have keys: "map as_employee_id new = map (\<lambda>e. Some (em_id e)) ?act"
    using n(1) by (simp add: emps)
  have fresh_rows: "\<forall>a \<in> set new. as_task_id a = Some ?tid \<and> \<not> as_is_completed a \<and>
        as_completed_at a = None"
  proof
    fix a assume "a \<in> set new"
    then have "as_task_id a \<in> set (map as_task_id new)"
      and "as_is_completed a \<in> set (map as_is_completed new)"
      and "as_completed_at a \<in> set (map as_completed_at new)"
      by simp_all
    then show "as_task_id a = Some ?tid \<and> \<not> as_is_completed a \<and> as_completed_at a = None"
      unfolding n(2,3,4) by auto
  qed
  have all_rows: "filter (\<lambda>a. as_task_id a = Some ?tid) (task_assignments d') = new"
    unfolding a using k(5) fresh_rows by (simp add: filter_append_none)
  have he: "\<not> has_employee d' (employees_id_seq d')"
    using k(3) by (simp add: has_employee_cong [OF same(1)] same(4))
  have accepted: "\<forall>b r u p f pic.
        length u \<le> 50 \<and> length p \<le> 255 \<and> length f \<le> 100 \<and> has_branch d b \<and> has_role d r \<and>
        u \<notin> set (map em_username (employees d)) \<longrightarrow>
        (\<exists>d''. add_employee d' b r u p f pic = Inr d'')"
  proof (intro allI impI)
    fix b r :: int and u p f pic :: string
    assume h: "length u \<le> 50 \<and> length p \<le> 255 \<and> length f \<le> 100 \<and> has_branch d b \<and>
        has_role d r \<and> u \<notin> set (map em_username (employees d))"
    then have "length u \<le> 50" "length p \<le> 255" "length f \<le> 100"
      and "has_branch d' b" and "has_role d' r"
      and "u \<notin> set (map em_username (employees d'))"
      by (simp_all add: has_branch_cong [OF same(2)] has_role_cong [OF same(3)] same(1))
    with he show "\<exists>d''. add_employee d' b r u p f pic = Inr d''"
      by (rule add_employee_accepted)
  qed
  have none_of_new: "\<forall>a \<in> set new. as_employee_id a \<noteq> Some (employees_id_seq d)"
  proof
    fix a assume "a \<in> set new"
    then have "as_employee_id a \<in> set (map as_employee_id new)" by simp
    then have "as_employee_id a \<in> (\<lambda>e. Some (em_id e)) ` set ?act"
      unfolding keys by simp
    then obtain e where e: "e \<in> set (employees d)" "as_employee_id a = Some (em_id e)"
      by auto
    from e(1) have "has_employee d (em_id e)" by (simp add: has_employee_def)
    with k(3) have "em_id e \<noteq> employees_id_seq d" by auto
    with e(2) show "as_employee_id a \<noteq> Some (employees_id_seq d)" by simp
  qed
  have later: "\<forall>b r u p f pic d''. add_employee d' b r u p f pic = Inr d'' \<longrightarrow>
        task_assignments d'' = task_assignments d' \<and>
        map em_id (employees d'') = map em_id (employees d) @ [employees_id_seq d] \<and>
        filter (\<lambda>a. as_task_id a = Some ?tid \<and> as_employee_id a = Some (employees_id_seq d))
               (task_assignments d'') = []"
  proof (intro allI impI)
    fix b r u p f pic d''
    assume "add_employee d' b r u p f pic = Inr d''"
    from add_employee_result [OF this]
    have 1: "task_assignments d'' = task_assignments d'"
      and 2: "map em_id (employees d'') = map em_id (employees d) @ [employees_id_seq d]"
      by (simp_all add: same)
    have 3: "filter (\<lambda>a. as_task_id a = Some ?tid \<and> as_employee_id a = Some (employees_id_seq d))
               (task_assignments d'') = []"
      unfolding 1 a using k(5) none_of_new by (simp add: filter_empty_conv)
    show "task_assignments d'' = task_assignments d' \<and>
        map em_id (employees d'') = map em_id (employees d) @ [employees_id_seq d] \<and>
        filter (\<lambda>a. as_task_id a = Some ?tid \<and> as_employee_id a = Some (employees_id_seq d))
               (task_assignments d'') = []"
      by (intro conjI) (rule 1 2 3)+
  qed
  show ?thesis
    by (intro exI [of _ d'] exI [of _ new] conjI)
       (rule r t a len keys fresh_rows all_rows accepted later)+
qed

lemma example_db_keys:
  "store_keys_ok example_db"
  "tasks_id_seq example_db = 4" "employees_id_seq example_db = 7"
  "has_company example_db 1" "has_branch example_db 1" "has_branch example_db 2"
  "has_role example_db 3" "has_employee example_db 2" "has_employee example_db 6"
  by (simp_all add: store_keys_ok_def has_task_def has_company_def has_branch_def has_role_def
      has_employee_def example_db_def example_task1_def example_task2_def example_task3_def
      example_assignments_def example_employees_def example_companies_def example_branches_def
      example_roles_def)

lemma example_db_active:
  "map em_id (filter (\<lambda>e. em_branch_id e = Some 1 \<and> em_is_active e) (employees example_db)) =
     [1, 2, 3]"
  "filter (\<lambda>e. em_branch_id e = Some 2 \<and> em_is_active e) (employees example_db) = []"
  "map em_username (employees example_db) = [''mona'', ''gus'', ''gil'', ''olga'', ''pete'', ''ivan'']"
  by (simp_all add: example_db_def example_employees_def)

text \<open>Calls that the store refuses: a task for a company or for a branch that
  has no row, an employee with a username that is taken, in a branch that has
  no row, or with a name longer than its column.\<close>

lemma example_refused_inserts:
  "create_task example_db 77 ''Audit'' None (Some 2) None = Inl IntegrityError"
  "create_task example_db 1 ''Audit'' None (Some 99) None = Inl IntegrityError"
  "add_employee example_db 1 3 ''gus'' ''secret'' ''Gus Two'' [] = Inl IntegrityError"
  "add_employee example_db 99 3 ''nina'' ''secret'' ''Nina'' [] = Inl IntegrityError"
  "add_employee example_db 1 3 (replicate 51 CHR ''n'') ''secret'' ''Nina'' [] = Inl DataError"
  by (simp_all add: create_task_def insert_task_def add_employee_def has_task_def
      has_company_def has_branch_def has_role_def has_employee_def example_db_def
      example_task1_def example_task2_def example_task3_def example_employees_def
      example_companies_def example_branches_def example_roles_def)

theorem create_task_fan_out_witness:
  "truthy (Some 1) \<and> \<not> truthy None \<and> store_keys_ok example_db \<and> has_company example_db 1 \<and>
   fk_ok (has_branch example_db) (Some 1) \<and> fk_ok (has_employee example_db) None \<and>
   (\<exists>d' new d''. create_task example_db 1 ''Audit'' None (Some 1) None = Inr (4, d') \<and>
      filter (\<lambda>a. as_task_id a = Some 4) (task_assignments d') = new \<and>
      map as_employee_id new = [Some 1, Some 2, Some 3] \<and>
      map as_is_completed new = [False, False, False] \<and>
      add_employee d' 1 3 ''nina'' ''secret'' ''Nina'' [] = Inr d'' \<and>
      map em_id (employees d'') = [1, 2, 3, 4, 5, 6, 7] \<and>
      filter (\<lambda>a. as_task_id a = Some 4 \<and> as_employee_id a = Some 7)
             (task_assignments d'') = [])"
proof -
  have h1: "truthy (Some 1)" by simp
  have h2: "\<not> truthy None" by simp
  note h3 = example_db_keys(1)
  note h4 = example_db_keys(4)
  have h5: "fk_ok (has_branch example_db) (Some 1)" by (simp add: example_db_keys)
  have h6: "fk_ok (has_employee example_db) None" by simp
  from create_task_fan_out [OF h1 h2 h3 h4 h5 h6, of "''Audit''" None]
  obtain d' new where
    r: "create_task example_db 1 ''Audit'' None (Some 1) None =
          Inr (tasks_id_seq example_db, d')"
    and keys: "map as_employee_id new =
       map (\<lambda>e. Some (em_id e))
           (filter (\<lambda>e. em_branch_id e = Some 1 \<and> em_is_active e) (employees example_db))"
    and rows: "\<forall>a \<in> set new. as_task_id a = Some (tasks_id_seq example_db) \<and>
        \<not> as_is_completed a \<and> as_completed_at a = None"
    and allr: "filter (\<lambda>a. as_task_id a = Some (tasks_id_seq example_db))
                 (task_assignments d') = new"
    and acc: "\<forall>b r u p f pic.
        length u \<le> 50 \<and> length p \<le> 255 \<and> length f \<le> 100 \<and> has_branch example_db b \<and>
        has_role example_db r \<and> u \<notin> set (map em_username (employees example_db)) \<longrightarrow>
        (\<exists>d''. add_employee d' b r u p f pic = Inr d'')"
    and later: "\<forall>b r u p f pic d''. add_employee d' b r u p f pic = Inr d'' \<longrightarrow>
        task_assignments d'' = task_assignments d' \<and>
        map em_id (employees d'') =
          map em_id (employees example_db) @ [employees_id_seq example_db] \<and>
        filter (\<lambda>a. as_task_id a = Some (tasks_id_seq example_db) \<and>
                     as_employee_id a = Some (employees_id_seq example_db))
               (task_assignments d'') = []"
    by (elim exE conjE)
  have ok: "length ''nina'' \<le> 50 \<and> length ''secret'' \<le> 255 \<and> length ''Nina'' \<le> 100 \<and>
      has_branch example_db 1 \<and> has_role example_db 3 \<and>
      ''nina'' \<notin> set (map em_username (employees example_db))"
    by (simp add: example_db_keys example_db_active(3))
  from acc ok obtain d'' where
    ins: "add_employee d' 1 3 ''nina'' ''secret'' ''Nina'' [] = Inr d''"
    by blast
  from later ins have
    l: "map em_id (employees d'') =
          map em_id (employees example_db) @ [employees_id_seq example_db]"
      "filter (\<lambda>a. as_task_id a = Some (tasks_id_seq example_db) \<and>
                     as_employee_id a = Some (employees_id_seq example_db))
               (task_assignments d'') = []"
    by blast+
  have ids: "map em_id (employees example_db) = [1, 2, 3, 4, 5, 6]"
    by (simp add: example_db_def example_employees_def)
  have k: "map as_employee_id new = [Some 1, Some 2, Some 3]"
    using keys arg_cong [OF example_db_active(1), of "map Some"] by (simp add: comp_def)
  then obtain a1 a2 a3 where new: "new = [a1, a2, a3]" by auto
  have c: "map as_is_completed new = [False, False, False]"
    using rows by (simp add: new)
  have f: "filter (\<lambda>a. as_task_id a = Some 4) (task_assignments d') = new"
    using allr by (simp add: example_db_keys)
  have e: "map em_id (employees d'') = [1, 2, 3, 4, 5, 6, 7]"
    using l(1) by (simp add: ids example_db_keys)
  have n: "filter (\<lambda>a. as_task_id a = Some 4 \<and> as_employee_id a = Some 7)
             (task_assignments d'') = []"
    using l(2) by (simp add: example_db_keys)
  have r4: "create_task example_db 1 ''Audit'' None (Some 1) None = Inr (4, d')"
    using r by (simp add: example_db_keys)
  show ?thesis
    by (intro conjI exI [of _ d'] exI [of _ new] exI [of _ d''])
       (rule h1 h2 h3 h4 h5 h6 r4 f k c ins e n)+
qed

section \<open>A branch task without assignments\<close>

lemma pending_assignees_no_rows:
  "filter (\<lambda>a. as_task_id a = Some task_id) (task_assignments d) = [] \<Longrightarrow>
   pending_assignees d task_id = {}"
  by (auto simp: pending_assignees_def incomplete_assignments_def filter_empty_conv)

lemma mark_task_completed_no_assignments:
  assumes "select_task d task_id = Some t" and "\<not> ta_is_completed t"
    and "truthy (ta_branch_id t)"
    and "filter (\<lambda>a. as_task_id a = Some task_id) (task_assignments d) = []"
  shows "mark_task_completed d now task_id actor =
           (True, update_task_completed (update_assignment_completed d now task_id actor)
                    now task_id actor)"
proof (cases "is_manager d actor")
  case True
  then show ?thesis by (rule mark_task_completed_manager [OF assms(1-3)])
next
  case False
  have "pending_assignees d task_id \<subseteq> {Some actor}"
    using pending_assignees_no_rows [OF assms(4)] by simp
  then show ?thesis by (rule mark_task_completed_general_last [OF assms(1-3) False])
qed

text \<open>
  Claim C4, as amended.  Take a store that satisfies its key constraints and a
  branch-targeted \<open>create_task\<close> call, whose company and branch have rows, for
  a branch without active employees.  The call is accepted and appends an open
  task row and no assignment row: the task has zero assignments.  Such a task
  does have a path to completion: the first \<open>mark_task_completed\<close> call on it,
  at any time and by any employee (any actor that has an employee row), returns
  true and marks the task complete, attributed to that employee.
\<close>

theorem zero_employee_branch_task:
  assumes "truthy branch_id" and "\<not> truthy employee_id"
    and "store_keys_ok d" and "has_company d company_id"
    and "fk_ok (has_branch d) branch_id" and "fk_ok (has_employee d) employee_id"
    and "filter (\<lambda>e. em_branch_id e = branch_id \<and> em_is_active e) (employees d) = []"
  shows "\<exists>d' t. create_task d company_id task_description due_date branch_id employee_id =
             Inr (tasks_id_seq d, d') \<and>
           filter (\<lambda>a. as_task_id a = Some (tasks_id_seq d)) (task_assignments d') = [] \<and>
           select_task d' (tasks_id_seq d) = Some t \<and> \<not> ta_is_completed t \<and>
           ta_branch_id t = branch_id \<and>
           (\<forall>now actor. has_employee d' actor \<longrightarrow>
              (\<exists>d''. mark_task_completed d' now (tasks_id_seq d) actor = (True, d'') \<and>
                 select_task d'' (tasks_id_seq d) =
                   Some (t\<lparr>ta_is_completed := True, ta_completed_at := Some now,
                           ta_completed_by_id := Some actor\<rparr>)))"
proof -
  let ?tid = "tasks_id_seq d"
  let ?row = "\<lparr>ta_id = ?tid, ta_company_id = Some company_id, ta_branch_id = branch_id,
         ta_employee_id = employee_id, ta_task_description = task_description,
         ta_due_date = due_date, ta_is_completed = False,
         ta_completed_by_id = None, ta_completed_at = None\<rparr>"
  let ?d' = "d\<lparr>tasks := tasks d @ [?row], tasks_id_seq := ?tid + 1\<rparr>"
  note k = store_keys_okD [OF assms(3)]
  have emps: "select_active_branch_employees d branch_id = []"
    using assms(7) by (simp add: select_active_branch_employees_def filter_empty_conv)
  from create_task_branch [OF assms(1-6), of task_description due_date] obtain new where
    r0: "create_task d company_id task_description due_date branch_id employee_id =
      Inr (?tid,
        d\<lparr>tasks := tasks d @ [?row], tasks_id_seq := ?tid + 1,
           task_assignments := task_assignments d @ new,
           task_assignments_id_seq := task_assignments_id_seq d +
             int (length (select_active_branch_employees d branch_id))\<rparr>)"
    and n: "map as_employee_id new = map Some (select_active_branch_employees d branch_id)"
    by (elim exE conjE)
  from n have new: "new = []" by (simp add: emps)
  have r: "create_task d company_id task_description due_date branch_id employee_id =
             Inr (?tid, ?d')"
    using r0 by (simp add: new emps)
  have none: "filter (\<lambda>a. as_task_id a = Some ?tid) (task_assignments ?d') = []"
    using k(5) by (simp add: filter_empty_conv)
  have "find (\<lambda>t. ta_id t = ta_id ?row) (tasks d @ [?row]) = Some ?row"
    by (rule select_task_append_fresh) (simp add: k(6))
  then have s: "select_task ?d' ?tid = Some ?row"
    by (simp add: select_task_def)
  have o: "\<not> ta_is_completed ?row" by simp
  have b: "ta_branch_id ?row = branch_id" by simp
  have tb: "truthy (ta_branch_id ?row)" using assms(1) by simp
  have m: "\<forall>now actor. has_employee ?d' actor \<longrightarrow>
              (\<exists>d''. mark_task_completed ?d' now ?tid actor = (True, d'') \<and>
                 select_task d'' ?tid =
                   Some (?row\<lparr>ta_is_completed := True, ta_completed_at := Some now,
                           ta_completed_by_id := Some actor\<rparr>))"
  proof (intro allI impI)
    fix now actor
    let ?d'' = "update_task_completed (update_assignment_completed ?d' now ?tid actor)
                  now ?tid actor"
    have 1: "mark_task_completed ?d' now ?tid actor = (True, ?d'')"
      by (rule mark_task_completed_no_assignments [OF s o tb none])
    have 2: "select_task ?d'' ?tid =
                Some (?row\<lparr>ta_is_completed := True, ta_completed_at := Some now,
                        ta_completed_by_id := Some actor\<rparr>)"
      by (rule select_task_completed) (simp add: s)
    show "\<exists>d''. mark_task_completed ?d' now ?tid actor = (True, d'') \<and>
              select_task d'' ?tid =
                Some (?row\<lparr>ta_is_completed := True, ta_completed_at := Some now,
                        ta_completed_by_id := Some actor\<rparr>)"
      by (intro exI [of _ ?d''] conjI) (rule 1 2)+
  qed
  show ?thesis
    by (intro exI [of _ ?d'] exI [of _ ?row] conjI) (rule r none s o b m)+
qed

lemma example_db_audit_eq:
  "create_task example_db 1 ''Audit'' None (Some 2) None = Inr (4, example_db_audit)"
  by (simp add: example_db_audit_def create_task_def insert_task_def Let_def
      select_active_branch_employees_def has_task_def has_company_def has_branch_def
      example_db_def example_task1_def example_task2_def example_task3_def
      example_employees_def example_companies_def example_branches_def)

theorem zero_employee_branch_task_witness:
  "truthy (Some 2) \<and> \<not> truthy None \<and> store_keys_ok example_db \<and> has_company example_db 1 \<and>
   fk_ok (has_branch example_db) (Some 2) \<and> fk_ok (has_employee example_db) None \<and>
   filter (\<lambda>e. em_branch_id e = Some 2 \<and> em_is_active e) (employees example_db) = [] \<and>
   create_task example_db 1 ''Audit'' None (Some 2) None = Inr (4, example_db_audit) \<and>
   filter (\<lambda>a. as_task_id a = Some 4) (task_assignments example_db_audit) = [] \<and>
   has_employee example_db_audit 6 \<and>
   (\<exists>t d''. select_task example_db_audit 4 = Some t \<and> \<not> ta_is_completed t \<and>
      mark_task_completed example_db_audit 100 4 6 = (True, d'') \<and>
      select_task d'' 4 =
        Some (t\<lparr>ta_is_completed := True, ta_completed_at := Some 100,
                ta_completed_by_id := Some 6\<rparr>))"
proof -
  have h1: "truthy (Some 2)" by simp
  have h2: "\<not> truthy None" by simp
  note h3 = example_db_keys(1)
  note h4 = example_db_keys(4)
  have h5: "fk_ok (has_branch example_db) (Some 2)" by (simp add: example_db_keys)
  have h6: "fk_ok (has_employee example_db) None" by simp
  note h7 = example_db_active(2)
  from zero_employee_branch_task [OF h1 h2 h3 h4 h5 h6 h7, of "''Audit''" None]
  obtain d' t where
    r: "create_task example_db 1 ''Audit'' None (Some 2) None =
          Inr (tasks_id_seq example_db, d')"
    and n: "filter (\<lambda>a. as_task_id a = Some (tasks_id_seq example_db)) (task_assignments d') = []"
    and s: "select_task d' (tasks_id_seq example_db) = Some t"
    and o: "\<not> ta_is_completed t"
    and m: "\<forall>now actor. has_employee d' actor \<longrightarrow>
              (\<exists>d''. mark_task_completed d' now (tasks_id_seq example_db) actor = (True, d'') \<and>
                 select_task d'' (tasks_id_seq example_db) =
                   Some (t\<lparr>ta_is_completed := True, ta_completed_at := Some now,
                           ta_completed_by_id := Some actor\<rparr>))"
    by (elim exE conjE)
  have d': "d' = example_db_audit" using r example_db_audit_eq by simp
  have tid: "tasks_id_seq example_db = 4" by (rule example_db_keys)
  have e: "has_employee example_db_audit 6"
    by (simp add: has_employee_def example_db_audit_def example_db_def example_employees_def)
  from m e obtain d'' where
    c: "mark_task_completed d' 100 (tasks_id_seq example_db) 6 = (True, d'')"
       "select_task d'' (tasks_id_seq example_db) =
                Some (t\<lparr>ta_is_completed := True, ta_completed_at := Some 100,
                        ta_completed_by_id := Some 6\<rparr>)"
    unfolding d' by blast
  have n': "filter (\<lambda>a. as_task_id a = Some 4) (task_assignments example_db_audit) = []"
    using n by (simp add: d' tid)
  have s': "select_task example_db_audit 4 = Some t" using s by (simp add: d' tid)
  have c1: "mark_task_completed example_db_audit 100 4 6 = (True, d'')"
    using c(1) by (simp add: d' tid)
  have c2: "select_task d'' 4 =
        Some (t\<lparr>ta_is_completed := True, ta_completed_at := Some 100,
                ta_completed_by_id := Some 6\<rparr>)"
    using c(2) by (simp add: tid)
  show ?thesis
    by (intro conjI exI [of _ t] exI [of _ d''])
       (rule h1 h2 h3 h4 h5 h6 h7 example_db_audit_eq n' e s' o c1 c2)+
qed

text \<open>
  The claim as first stated lets no sequence of \<open>mark_task_completed\<close> calls
  complete such a task.  In the example store branch 2 has no active employee;
  the task created for it gets id 4 and no assignment row, and is open.  One
  call by employee 2, a general employee of another branch, returns true and
  leaves the task complete.
\<close>

theorem zero_employee_branch_task_counterexample:
  "create_task example_db 1 ''Audit'' None (Some 2) None = Inr (4, example_db_audit) \<and>
   select_active_branch_employees example_db (Some 2) = [] \<and>
   task_assignments example_db_audit = task_assignments example_db \<and>
   map as_task_id (task_assignments example_db) =
     [Some 1, Some 1, Some 1, Some 3, Some 3, Some 3] \<and>
   \<not> task_is_complete example_db_audit 4 \<and>
   has_employee example_db_audit 2 \<and>
   select_employee_role example_db_audit 2 = Some 3 \<and>
   fst (mark_task_completed_calls example_db_audit 4 [(100, 2)]) = [True] \<and>
   task_is_complete (snd (mark_task_completed_calls example_db_audit 4 [(100, 2)])) 4"
proof -
  note d = example_db_audit_def
  have 1: "create_task example_db 1 ''Audit'' None (Some 2) None = Inr (4, example_db_audit)"
    by (rule example_db_audit_eq)
  have 2: "select_active_branch_employees example_db (Some 2) = []"
    by (simp add: select_active_branch_employees_def example_db_def example_employees_def)
  have 3: "task_assignments example_db_audit = task_assignments example_db"
    by (simp add: d)
  have ids: "map as_task_id (task_assignments example_db) =
     [Some 1, Some 1, Some 1, Some 3, Some 3, Some 3]"
    by (simp add: example_db_def example_assignments_def)
  have s: "select_task example_db_audit 4 =
      Some \<lparr>ta_id = 4, ta_company_id = Some 1, ta_branch_id = Some 2, ta_employee_id = None,
         ta_task_description = ''Audit'', ta_due_date = None, ta_is_completed = False,
         ta_completed_by_id = None, ta_completed_at = None\<rparr>"
    by (simp add: d select_task_def example_db_def example_task1_def example_task2_def
        example_task3_def)
  have 4: "\<not> task_is_complete example_db_audit 4"
    by (simp add: task_is_complete_def s)
  have he: "has_employee example_db_audit 2"
    by (simp add: has_employee_def d example_db_def example_employees_def)
  have 5: "select_employee_role example_db_audit 2 = Some 3"
    by (simp add: d select_employee_role_def select_role_levels_def example_db_def
        example_employees_def example_roles_def)
  have a: "task_assignments (update_assignment_completed example_db_audit 100 4 2) =
      task_assignments example_db_audit"
    by (simp add: d update_assignment_completed_def complete_assignment_def example_db_def
        example_assignments_def)
  have ac: "all_complete (update_assignment_completed example_db_audit 100 4 2) 4"
    by (simp add: all_complete_def incomplete_assignments_def a)
       (simp add: d example_db_def example_assignments_def)
  have m: "mark_task_completed example_db_audit 100 4 2 =
      (True, update_task_completed (update_assignment_completed example_db_audit 100 4 2) 100 4 2)"
    by (simp add: mark_task_completed_def s Let_def is_manager_def 5 ac)
  have 6: "fst (mark_task_completed_calls example_db_audit 4 [(100, 2)]) = [True]"
    by (simp add: m)
  have 7: "task_is_complete (snd (mark_task_completed_calls example_db_audit 4 [(100, 2)])) 4"
    by (simp add: m task_is_complete_def select_task_update_task_completed s complete_task_def)
  show ?thesis
    by (intro conjI) (rule 1 2 3 ids 4 he 5 6 7)+
qed


section \<open>Properties of the date-range presets\<close>

lemma div_pred:
  fixes z k :: int
  assumes "0 < k"
  shows "z div k = (z - 1) div k + (if z mod k = 0 then 1 else 0)"
proof (cases "z mod k = 0")
  case True
  have z: "k * (z div k) + z mod k = z" by (rule mult_div_mod_eq)
  have "(z - 1) div k = z div k - 1"
  proof (rule int_div_pos_eq)
    show "z - 1 = k * (z div k - 1) + (k - 1)"
      using z True by (simp add: algebra_simps)
    show "0 \<le> k - 1" using assms by simp
    show "k - 1 < k" by simp
  qed
  with True show ?thesis by simp
next
  case False
  have z: "k * (z div k) + z mod k = z" by (rule mult_div_mod_eq)
  have "0 \<le> z mod k" and lt: "z mod k < k" using assms by simp_all
  with False have r: "0 \<le> z mod k - 1" by linarith
  have "(z - 1) div k = z div k"
  proof (rule int_div_pos_eq)
    show "z - 1 = k * (z div k) + (z mod k - 1)"
      using z by (simp add: algebra_simps)
    show "0 \<le> z mod k - 1" by (rule r)
    show "z mod k - 1 < k" using lt by simp
  qed
  with False show ?thesis by simp
qed

lemma mod_dvd_trans:
  fixes z :: int
  assumes "z mod m = 0" and "k dvd m"
  shows "z mod k = 0"
proof -
  from assms(1) have "m dvd z" by (simp add: mod_eq_0_iff_dvd)
  with assms(2) have "k dvd z" by (rule dvd_trans)
  then show ?thesis by (simp add: mod_eq_0_iff_dvd)
qed

lemma days_before_year_step:
  "days_before_year y = days_before_year (y - 1) + (if is_leap (y - 1) then 366 else 365)"
proof -
  define z where "z = y - 1"
  define a b c where "a = (z - 1) div 4" and "b = (z - 1) div 100" and "c = (z - 1) div 400"
  have a: "z div 4 = a + (if z mod 4 = 0 then 1 else 0)"
    unfolding a_def by (rule div_pred) simp
  have b: "z div 100 = b + (if z mod 100 = 0 then 1 else 0)"
    unfolding b_def by (rule div_pred) simp
  have c: "z div 400 = c + (if z mod 400 = 0 then 1 else 0)"
    unfolding c_def by (rule div_pred) simp
  have "(100::int) dvd 400" by (rule dvdI [of _ _ 4]) simp
  then have d: "z mod 400 = 0 \<Longrightarrow> z mod 100 = 0" by (rule mod_dvd_trans [rotated])
  have "(4::int) dvd 100" by (rule dvdI [of _ _ 25]) simp
  then have e: "z mod 100 = 0 \<Longrightarrow> z mod 4 = 0" by (rule mod_dvd_trans [rotated])
  have l: "days_before_year y = z * 365 + z div 4 - z div 100 + z div 400"
    by (simp add: days_before_year_def z_def)
  have r: "days_before_year (y - 1) = (z - 1) * 365 + a - b + c"
    by (simp add: days_before_year_def z_def a_def b_def c_def)
  have leap: "is_leap (y - 1) = (z mod 4 = 0 \<and> (z mod 100 \<noteq> 0 \<or> z mod 400 = 0))"
    by (simp add: is_leap_def z_def)
  show ?thesis
  proof (cases "z mod 4 = 0")
    case False
    with d e have "z mod 100 \<noteq> 0" "z mod 400 \<noteq> 0" by auto
    with False show ?thesis unfolding l r leap a b c by (simp add: algebra_simps)
  next
    case True
    show ?thesis
    proof (cases "z mod 100 = 0")
      case False
      with d have "z mod 400 \<noteq> 0" by auto
      with True False show ?thesis unfolding l r leap a b c by (simp add: algebra_simps)
    next
      case h: True
      show ?thesis
        by (cases "z mod 400 = 0") (use True h in \<open>simp_all add: l r leap a b c algebra_simps\<close>)
    qed
  qed
qed


lemma days_before_month_step:
  assumes "2 \<le> m" and "m \<le> 12"
  shows "days_before_month y m = days_before_month y (m - 1) + days_in_month y (m - 1)"
proof -
  from assms have "m = 2 \<or> m = 3 \<or> m = 4 \<or> m = 5 \<or> m = 6 \<or> m = 7 \<or> m = 8 \<or> m = 9 \<or>
      m = 10 \<or> m = 11 \<or> m = 12"
    by arith
  then show ?thesis
    by (elim disjE) (simp_all add: days_before_month_def days_in_month_def)
qed

lemma days_in_month_bounds:
  "28 \<le> days_in_month y m" "days_in_month y m \<le> 31"
  by (simp_all add: days_in_month_def)

lemma days_before_year_nonneg:
  assumes "1 \<le> y"
  shows "0 \<le> days_before_year y"
proof -
  define z where "z = y - 1"
  have z: "0 \<le> z" using assms by (simp add: z_def)
  have "z div 100 \<le> z" using z by presburger
  moreover have "0 \<le> z div 4" "0 \<le> z div 400" using z by simp_all
  ultimately have "0 \<le> z * 365 + z div 4 - z div 100 + z div 400" using z by linarith
  then show ?thesis by (simp add: days_before_year_def z_def)
qed

lemma days_before_month_nonneg: "0 \<le> days_before_month y m"
  by (simp add: days_before_month_def)

lemma toordinal_pos:
  assumes "valid_date dt"
  shows "1 \<le> toordinal dt"
  using assms days_before_year_nonneg [of "year dt"]
    days_before_month_nonneg [of "year dt" "month dt"]
  by (simp add: toordinal_def valid_date_def)

lemma prev_day_step:
  assumes "valid_date dt" and "1 < toordinal dt"
  shows "\<exists>dt'. prev_day dt = Inr dt' \<and> valid_date dt' \<and> toordinal dt' = toordinal dt - 1"
proof -
  from assms(1) have v: "1 \<le> year dt" "year dt \<le> 9999" "1 \<le> month dt" "month dt \<le> 12"
    "1 \<le> day dt" "day dt \<le> days_in_month (year dt) (month dt)"
    by (simp_all add: valid_date_def)
  consider (d) "1 < day dt" | (m) "day dt = 1" "1 < month dt"
    | (y) "day dt = 1" "month dt = 1" "1 < year dt"
    | (z) "day dt = 1" "month dt = 1" "year dt = 1"
    using v by linarith
  then show ?thesis
  proof cases
    case d
    let ?p = "dt\<lparr>day := day dt - 1\<rparr>"
    have "prev_day dt = Inr ?p" using d by (simp add: prev_day_def)
    moreover have "valid_date ?p" using d v by (simp add: valid_date_def)
    moreover have "toordinal ?p = toordinal dt - 1" by (simp add: toordinal_def)
    ultimately show ?thesis by blast
  next
    case m
    let ?p = "\<lparr>year = year dt, month = month dt - 1,
               day = days_in_month (year dt) (month dt - 1)\<rparr>"
    have "prev_day dt = Inr ?p" using m by (simp add: prev_day_def)
    moreover have "valid_date ?p"
      using m v days_in_month_bounds [of "year dt" "month dt - 1"]
      by (simp add: valid_date_def)
    moreover have "toordinal ?p = toordinal dt - 1"
      using days_before_month_step [of "month dt" "year dt"] m v
      by (simp add: toordinal_def)
    ultimately show ?thesis by blast
  next
    case y
    let ?p = "\<lparr>year = year dt - 1, month = 12, day = 31\<rparr>"
    have "prev_day dt = Inr ?p" using y by (simp add: prev_day_def)
    moreover have "valid_date ?p"
      using y v by (simp add: valid_date_def days_in_month_def)
    moreover have "toordinal ?p = toordinal dt - 1"
      using days_before_year_step [of "year dt"] y
      by (simp add: toordinal_def days_before_month_def)
    ultimately show ?thesis by blast
  next
    case z
    then have "toordinal dt = 1"
      by (simp add: toordinal_def days_before_year_def days_before_month_def)
    with assms(2) show ?thesis by simp
  qed
qed

lemma sub_days_steps:
  assumes "valid_date dt" and "int n < toordinal dt"
  shows "\<exists>dt'. sub_days dt n = Inr dt' \<and> valid_date dt' \<and> toordinal dt' = toordinal dt - int n"
  using assms
proof (induction n arbitrary: dt)
  case 0
  then show ?case by simp
next
  case (Suc n)
  from Suc.prems have "1 < toordinal dt" by simp
  from prev_day_step [OF Suc.prems(1) this] obtain p where
    p: "prev_day dt = Inr p" "valid_date p" "toordinal p = toordinal dt - 1"
    by blast
  from Suc.prems p have "int n < toordinal p" by simp
  from Suc.IH [OF p(2) this] obtain dt' where
    "sub_days p n = Inr dt'" "valid_date dt'" "toordinal dt' = toordinal p - int n"
    by blast
  with p show ?case by simp
qed

lemma weekday_range: "0 \<le> weekday dt" "weekday dt < 7"
  by (simp_all add: weekday_def)

lemma this_week_start:
  assumes "valid_date today"
  shows "\<exists>s. sub_days today (nat (weekday today)) = Inr s \<and> valid_date s \<and> weekday s = 0 \<and>
           toordinal s = toordinal today - weekday today"
proof -
  have o: "1 \<le> toordinal today" by (rule toordinal_pos [OF assms])
  have w: "weekday today = (toordinal today - 1) mod 7"
    unfolding weekday_def by presburger
  have "(toordinal today - 1) mod 7 \<le> toordinal today - 1"
    by (rule zmod_le_nonneg_dividend) (use o in simp)
  then have lt: "int (nat (weekday today)) < toordinal today"
    using weekday_range [of today] w by simp
  from sub_days_steps [OF assms lt] obtain s where
    s: "sub_days today (nat (weekday today)) = Inr s" "valid_date s"
      "toordinal s = toordinal today - int (nat (weekday today))"
    by blast
  have t: "toordinal s = toordinal today - weekday today"
    using s(3) weekday_range [of today] by simp
  have "weekday s = 0"
    unfolding weekday_def t unfolding weekday_def by presburger
  with s t show ?thesis by blast
qed


lemma last_month_range_later_month:
  assumes "valid_date today" and "1 < month today"
  shows "last_month_range today =
           Inr (\<lparr>year = year today, month = month today - 1, day = 1\<rparr>,
                \<lparr>year = year today, month = month today - 1,
                 day = days_in_month (year today) (month today - 1)\<rparr>)"
proof -
  from assms(1) have v: "1 \<le> year today" "year today \<le> 9999" "month today \<le> 12"
    by (simp_all add: valid_date_def)
  have b: "28 \<le> days_in_month (year today) (month today - 1)"
    "28 \<le> days_in_month (year today) (month today)"
    by (rule days_in_month_bounds)+
  have s: "mk_date (year today) (month today - 1) 1 =
             Inr \<lparr>year = year today, month = month today - 1, day = 1\<rparr>"
    using v assms(2) b by (simp add: mk_date_def valid_date_def)
  have f: "mk_date (year today) (month today) 1 =
             Inr \<lparr>year = year today, month = month today, day = 1\<rparr>"
    using v assms(2) b by (simp add: mk_date_def valid_date_def)
  have p: "prev_day \<lparr>year = year today, month = month today, day = 1\<rparr> =
             Inr \<lparr>year = year today, month = month today - 1,
                  day = days_in_month (year today) (month today - 1)\<rparr>"
    using assms(2) by (simp add: prev_day_def)
  have n: "month today - 1 \<noteq> 12" using v by simp
  show ?thesis
    using assms(2) n by (simp add: last_month_range_def Let_def s f p)
qed

lemma last_month_range_january:
  assumes "valid_date today" and "month today = 1" and "1 < year today"
  shows "last_month_range today =
           Inr (\<lparr>year = year today - 1, month = 12, day = 1\<rparr>,
                \<lparr>year = year today - 1, month = 12, day = 31\<rparr>)"
proof -
  from assms(1) have v: "year today \<le> 9999" by (simp add: valid_date_def)
  have s: "mk_date (year today - 1) 12 1 = Inr \<lparr>year = year today - 1, month = 12, day = 1\<rparr>"
    using v assms(3) by (simp add: mk_date_def valid_date_def days_in_month_def)
  have e: "mk_date (year today - 1) 12 31 = Inr \<lparr>year = year today - 1, month = 12, day = 31\<rparr>"
    using v assms(3) by (simp add: mk_date_def valid_date_def days_in_month_def)
  show ?thesis
    using assms(2) by (simp add: last_month_range_def Let_def s e)
qed

text \<open>
  Claim C9.  For every date \<open>today\<close>, the preset \<^verbatim>\<open>"This Week"\<close> (in the view
  and in \<open>get_date_range_from_filter\<close> alike) yields a start date that is a
  Monday, at most six days before \<open>today\<close> (exactly \<open>weekday today\<close> days
  before it), and the end date \<open>today\<close>.  The preset \<^verbatim>\<open>"Last Month"\<close> of the
  view yields the first day of the previous month and that month's last day:
  its day number is the length of that month, and it is the day before the
  first of the current month.  In March this is February 1 to February 29 in
  a leap year and to February 28 otherwise.  (In January of year 1 there is no
  previous month in the range of \<^verbatim>\<open>datetime.date\<close>.)
\<close>

theorem date_range_presets:
  assumes "valid_date today"
  shows "(\<exists>s. view_date_range today ''This Week'' custom_start custom_end = Inr (s, today) \<and>
            get_date_range_from_filter today ''This Week'' = Inr (s, today) \<and>
            valid_date s \<and> weekday s = 0 \<and>
            toordinal today - toordinal s = weekday today \<and>
            0 \<le> toordinal today - toordinal s \<and> toordinal today - toordinal s < 7) \<and>
         (1 < month today \<longrightarrow>
            view_date_range today ''Last Month'' custom_start custom_end =
              Inr (\<lparr>year = year today, month = month today - 1, day = 1\<rparr>,
                   \<lparr>year = year today, month = month today - 1,
                    day = days_in_month (year today) (month today - 1)\<rparr>) \<and>
            prev_day \<lparr>year = year today, month = month today, day = 1\<rparr> =
              Inr \<lparr>year = year today, month = month today - 1,
                   day = days_in_month (year today) (month today - 1)\<rparr>) \<and>
         (month today = 1 \<and> 1 < year today \<longrightarrow>
            view_date_range today ''Last Month'' custom_start custom_end =
              Inr (\<lparr>year = year today - 1, month = 12, day = 1\<rparr>,
                   \<lparr>year = year today - 1, month = 12, day = 31\<rparr>) \<and>
            days_in_month (year today - 1) 12 = 31 \<and>
            prev_day \<lparr>year = year today, month = month today, day = 1\<rparr> =
              Inr \<lparr>year = year today - 1, month = 12, day = 31\<rparr>) \<and>
         (month today = 3 \<longrightarrow>
            view_date_range today ''Last Month'' custom_start custom_end =
              Inr (\<lparr>year = year today, month = 2, day = 1\<rparr>,
                   \<lparr>year = year today, month = 2,
                    day = (if is_leap (year today) then 29 else 28)\<rparr>))"
proof (intro conjI impI)
  from this_week_start [OF assms] obtain s where
    s: "sub_days today (nat (weekday today)) = Inr s" "valid_date s" "weekday s = 0"
      "toordinal s = toordinal today - weekday today"
    by blast
  have v: "view_date_range today ''This Week'' custom_start custom_end = Inr (s, today)"
    by (simp add: view_date_range_def s(1))
  have g: "get_date_range_from_filter today ''This Week'' = Inr (s, today)"
    by (simp add: get_date_range_from_filter_def s(1))
  have d: "toordinal today - toordinal s = weekday today"
    using s(4) by simp
  have r: "0 \<le> toordinal today - toordinal s" "toordinal today - toordinal s < 7"
    unfolding d by (rule weekday_range)+
  show "\<exists>s. view_date_range today ''This Week'' custom_start custom_end = Inr (s, today) \<and>
            get_date_range_from_filter today ''This Week'' = Inr (s, today) \<and>
            valid_date s \<and> weekday s = 0 \<and>
            toordinal today - toordinal s = weekday today \<and>
            0 \<le> toordinal today - toordinal s \<and> toordinal today - toordinal s < 7"
    by (intro exI [of _ s] conjI) (rule v g s(2) s(3) d r)+
next
  assume m: "1 < month today"
  show "view_date_range today ''Last Month'' custom_start custom_end =
              Inr (\<lparr>year = year today, month = month today - 1, day = 1\<rparr>,
                   \<lparr>year = year today, month = month today - 1,
                    day = days_in_month (year today) (month today - 1)\<rparr>)"
    by (simp add: view_date_range_def last_month_range_later_month [OF assms m])
  show "prev_day \<lparr>year = year today, month = month today, day = 1\<rparr> =
              Inr \<lparr>year = year today, month = month today - 1,
                   day = days_in_month (year today) (month today - 1)\<rparr>"
    using m by (simp add: prev_day_def)
next
  assume j: "month today = 1 \<and> 1 < year today"
  then have j1: "month today = 1" and j2: "1 < year today" by simp_all
  show "view_date_range today ''Last Month'' custom_start custom_end =
              Inr (\<lparr>year = year today - 1, month = 12, day = 1\<rparr>,
                   \<lparr>year = year today - 1, month = 12, day = 31\<rparr>)"
    by (simp add: view_date_range_def last_month_range_january [OF assms j1 j2])
  show "days_in_month (year today - 1) 12 = 31" by (simp add: days_in_month_def)
  show "prev_day \<lparr>year = year today, month = month today, day = 1\<rparr> =
              Inr \<lparr>year = year today - 1, month = 12, day = 31\<rparr>"
    using j by (simp add: prev_day_def)
next
  assume m: "month today = 3"
  then have "1 < month today" by simp
  from last_month_range_later_month [OF assms this]
  show "view_date_range today ''Last Month'' custom_start custom_end =
              Inr (\<lparr>year = year today, month = 2, day = 1\<rparr>,
                   \<lparr>year = year today, month = 2,
                    day = (if is_leap (year today) then 29 else 28)\<rparr>)"
    using m by (simp add: view_date_range_def days_in_month_def)
qed


theorem date_range_presets_witness:
  "valid_date example_wednesday \<and> weekday example_wednesday = 2 \<and>
   view_date_range example_wednesday ''This Week'' example_wednesday example_wednesday =
     Inr (\<lparr>year = 2024, month = 3, day = 11\<rparr>, example_wednesday) \<and>
   weekday \<lparr>year = 2024, month = 3, day = 11\<rparr> = 0 \<and>
   view_date_range example_wednesday ''Last Month'' example_wednesday example_wednesday =
     Inr (\<lparr>year = 2024, month = 2, day = 1\<rparr>, \<lparr>year = 2024, month = 2, day = 29\<rparr>)"
proof -
  have h: "valid_date example_wednesday"
    by (simp add: example_wednesday_def valid_date_def days_in_month_def)
  have w: "weekday example_wednesday = 2"
    by (simp add: example_wednesday_def weekday_def toordinal_def days_before_year_def
        days_before_month_def is_leap_def)
  have p: "sub_days example_wednesday 2 = Inr \<lparr>year = 2024, month = 3, day = 11\<rparr>"
    by (simp add: example_wednesday_def eval_nat_numeral prev_day_def)
  have v: "view_date_range example_wednesday ''This Week'' example_wednesday example_wednesday =
     Inr (\<lparr>year = 2024, month = 3, day = 11\<rparr>, example_wednesday)"
    by (simp add: view_date_range_def w p)
  note th = date_range_presets [OF h, of example_wednesday example_wednesday]
  from th obtain s where
    s: "view_date_range example_wednesday ''This Week'' example_wednesday example_wednesday =
          Inr (s, example_wednesday)" "weekday s = 0"
    by (elim conjE exE)
  from s(1) v have "s = \<lparr>year = 2024, month = 3, day = 11\<rparr>" by simp
  with s(2) have m: "weekday \<lparr>year = 2024, month = 3, day = 11\<rparr> = 0" by simp
  have m3: "month example_wednesday = 3" by (simp add: example_wednesday_def)
  from th have "month example_wednesday = 3 \<longrightarrow>
            view_date_range example_wednesday ''Last Month'' example_wednesday example_wednesday =
              Inr (\<lparr>year = year example_wednesday, month = 2, day = 1\<rparr>,
                   \<lparr>year = year example_wednesday, month = 2,
                    day = (if is_leap (year example_wednesday) then 29 else 28)\<rparr>)"
    by (elim conjE)
  with m3 have l: "view_date_range example_wednesday ''Last Month'' example_wednesday
      example_wednesday =
     Inr (\<lparr>year = 2024, month = 2, day = 1\<rparr>, \<lparr>year = 2024, month = 2, day = 29\<rparr>)"
    by (simp add: example_wednesday_def is_leap_def)
  show ?thesis
    by (intro conjI) (rule h w v m l)+
qed

end
